theory Spec2Isabelle
  imports Complex_Main "HOL-Library.Word"
begin

section \<open>Python values\<close>

text \<open>
  The program of \<^verbatim>\<open>streamlit_ui_v1.py\<close> handles the values that \<^verbatim>\<open>json.loads\<close> produces,
  and \<^verbatim>\<open>None\<close>. \<open>JNull\<close> is \<^verbatim>\<open>None\<close>, \<open>JObject\<close> a \<^verbatim>\<open>dict\<close> as the list of its items in
  insertion order, \<open>JArray\<close> a \<^verbatim>\<open>list\<close>. A \<^verbatim>\<open>float\<close> is the rational it denotes, or one of
  the three non-finite values that \<^verbatim>\<open>json.loads\<close> also accepts. A \<^verbatim>\<open>str\<close> is a \<open>string\<close>,
  one \<open>char\<close> for each character, so that \<open>length\<close> is Python's \<^verbatim>\<open>len\<close>.
\<close>

datatype pyfloat = Finite rat | PosInf | NegInf | NaN

datatype json =
    JNull
  | JBool bool
  | JInt int
  | JFloat pyfloat
  | JString string
  | JArray "json list"
  | JObject "(string \<times> json) list"

text \<open>
  A Python call returns a value or raises. An exception is kept as the text \<^verbatim>\<open>str(e)\<close>,
  which is all the handlers of the program read; \<open>Inl\<close> is the raise.
\<close>

type_synonym exn = string

definition and_then :: "exn + 'a \<Rightarrow> ('a \<Rightarrow> exn + 'b) \<Rightarrow> exn + 'b" where
  "and_then m f = (case m of Inl e \<Rightarrow> Inl e | Inr x \<Rightarrow> f x)"

fun py_type_name :: "json \<Rightarrow> string" where
  "py_type_name JNull = ''NoneType''"
| "py_type_name (JBool b) = ''bool''"
| "py_type_name (JInt i) = ''int''"
| "py_type_name (JFloat f) = ''float''"
| "py_type_name (JString s) = ''str''"
| "py_type_name (JArray xs) = ''list''"
| "py_type_name (JObject kvs) = ''dict''"

definition quoted :: "string \<Rightarrow> string" where
  "quoted s = [CHR 0x27] @ s @ [CHR 0x27]"

definition no_attribute :: "json \<Rightarrow> string \<Rightarrow> exn" where
  "no_attribute v a = quoted (py_type_name v) @ '' object has no attribute '' @ quoted a"

text \<open>\<^verbatim>\<open>v.get(k)\<close>: the value under \<open>k\<close>, \<^verbatim>\<open>None\<close> when the key is absent; only a dict has \<^verbatim>\<open>get\<close>.\<close>

definition dict_get :: "(string \<times> json) list \<Rightarrow> string \<Rightarrow> json" where
  "dict_get kvs k = (case map_of kvs k of None \<Rightarrow> JNull | Some v \<Rightarrow> v)"

fun py_get :: "json \<Rightarrow> string \<Rightarrow> exn + json" where
  "py_get (JObject kvs) k = Inr (dict_get kvs k)"
| "py_get v k = Inl (no_attribute v ''get'')"

text \<open>\<^verbatim>\<open>v[0]\<close>. A dict read from JSON has string keys only, so \<^verbatim>\<open>d[0]\<close> is a \<^verbatim>\<open>KeyError\<close>.\<close>

fun py_item0 :: "json \<Rightarrow> exn + json" where
  "py_item0 (JArray []) = Inl ''list index out of range''"
| "py_item0 (JArray (x # xs)) = Inr x"
| "py_item0 (JString []) = Inl ''string index out of range''"
| "py_item0 (JString (c # cs)) = Inr (JString [c])"
| "py_item0 (JObject kvs) = Inl ''0''"
| "py_item0 v = Inl (quoted (py_type_name v) @ '' object is not subscriptable'')"

text \<open>The receiver of \<^verbatim>\<open>response_text.find\<close> has to be a \<^verbatim>\<open>str\<close>.\<close>

fun py_find_receiver :: "json \<Rightarrow> exn + string" where
  "py_find_receiver (JString s) = Inr s"
| "py_find_receiver v = Inl (no_attribute v ''find'')"

subsection \<open>String operations\<close>

text \<open>\<^verbatim>\<open>s.find(c)\<close> and \<^verbatim>\<open>s.rfind(c)\<close> for a one-character \<open>c\<close>: an index, or \<open>-1\<close>.\<close>

definition py_find :: "char \<Rightarrow> string \<Rightarrow> int" where
  "py_find c s = (if c \<in> set s then int (length (takeWhile (\<lambda>x. x \<noteq> c) s)) else - 1)"

definition py_rfind :: "char \<Rightarrow> string \<Rightarrow> int" where
  "py_rfind c s =
     (if c \<in> set s then int (length s) - 1 - int (length (takeWhile (\<lambda>x. x \<noteq> c) (rev s)))
      else - 1)"

text \<open>\<^verbatim>\<open>s[i:j]\<close>: a negative bound counts from the end, and both are clipped to the string.\<close>

definition slice_bound :: "nat \<Rightarrow> int \<Rightarrow> nat" where
  "slice_bound n k = (if k < 0 then nat (max 0 (k + int n)) else min (nat k) n)"

definition py_slice :: "'a list \<Rightarrow> int \<Rightarrow> int \<Rightarrow> 'a list" where
  "py_slice s i j = drop (slice_bound (length s) i) (take (slice_bound (length s) j) s)"

text \<open>\<^verbatim>\<open>str.isspace\<close> on the characters a \<open>char\<close> can be, and \<^verbatim>\<open>s.strip()\<close>.\<close>

definition py_isspace :: "char \<Rightarrow> bool" where
  "py_isspace c = (of_char c \<in> {9, 10, 11, 12, 13, 28, 29, 30, 31, 32, 133, 160 :: nat})"

definition py_strip :: "string \<Rightarrow> string" where
  "py_strip s = rev (dropWhile py_isspace (rev (dropWhile py_isspace s)))"

text \<open>\<^verbatim>\<open>sep.join(xs)\<close>.\<close>

fun py_join :: "string \<Rightarrow> string list \<Rightarrow> string" where
  "py_join sep [] = []"
| "py_join sep [x] = x"
| "py_join sep (x # y # ys) = x @ sep @ py_join sep (y # ys)"

text \<open>Decimal digits of an \<^verbatim>\<open>int\<close>, as \<^verbatim>\<open>str\<close> prints it.\<close>

function show_nat :: "nat \<Rightarrow> string" where
  "show_nat n = (if n < 10 then [char_of (48 + n)] else show_nat (n div 10) @ [char_of (48 + n mod 10)])"
  by pat_completeness auto
termination
  by (relation "measure id") auto

definition show_int :: "int \<Rightarrow> string" where
  "show_int i = (if i < 0 then CHR ''-'' # show_nat (nat (- i)) else show_nat (nat i))"

section \<open>The collaborators\<close>

text \<open>
  The module \<^verbatim>\<open>prompts\<close> is imported by the program and is no part of it: its twelve
  category entries and the two classification entries are parameters. A prompt builder
  takes the extracted text and the date.
\<close>

record prompts =
  user_prompt_classification :: "string \<Rightarrow> string"
  system_prompt_for_doc_classification :: string
  user_prompt_poi :: "string \<Rightarrow> string \<Rightarrow> string"
  user_prompt_poa :: "string \<Rightarrow> string \<Rightarrow> string"
  user_prompt_registration :: "string \<Rightarrow> string \<Rightarrow> string"
  user_prompt_ownership :: "string \<Rightarrow> string \<Rightarrow> string"
  user_prompt_tax_return :: "string \<Rightarrow> string \<Rightarrow> string"
  user_prompt_financial :: "string \<Rightarrow> string \<Rightarrow> string"
  system_prompt_for_indentity_doc :: string
  system_prompt_for_poa_doc :: string
  system_prompt_for_registration_doc :: string
  system_prompt_for_ownership_doc :: string
  system_prompt_for_tax_return_doc :: string
  system_prompt_for_financial_doc :: string

text \<open>
  A page of an opened PDF is what \<^verbatim>\<open>page.extract_text()\<close> does on it: it raises, or it
  returns \<^verbatim>\<open>None\<close> or a \<^verbatim>\<open>str\<close>.
\<close>

type_synonym page = "exn + string option"

type_synonym bytes = "8 word list"

text \<open>
  The libraries and services the program calls:
  \<^item> \<open>pdfplumber_open\<close>: \<^verbatim>\<open>pdfplumber.open\<close> and the read of \<^verbatim>\<open>pdf.pages\<close>, on the bytes of the
    upload;
  \<^item> \<open>invoke_model\<close>: lines 121 to 153 and the read of the response body, that is the
    credentials, the session, the client and \<^verbatim>\<open>bedrock.invoke_model\<close>; it is given the
    message contents sent before and the one sent now, and yields the body or raises;
  \<^item> \<open>json_loads\<close>: \<^verbatim>\<open>json.loads\<close>;
  \<^item> \<open>repr_other\<close>: the text \<^verbatim>\<open>str\<close> gives a float, a list or a dict;
  \<^item> \<open>today\<close>: the module constant of that name, \<open>now_stamp\<close>: the value of
    \<^verbatim>\<open>datetime.now().strftime("%Y%m%d%H%M%S")\<close> when \<^verbatim>\<open>insert_document\<close> runs.
\<close>

record env =
  pdfplumber_open :: "bytes \<Rightarrow> exn + page list"
  invoke_model :: "string list \<Rightarrow> string \<Rightarrow> exn + string"
  json_loads :: "string \<Rightarrow> exn + json"
  repr_other :: "json \<Rightarrow> string"
  today :: string
  now_stamp :: string
  prompts_module :: prompts

text \<open>
  What a run leaves behind: the flag \<^verbatim>\<open>st.session_state.processing\<close>, the messages shown
  with \<^verbatim>\<open>st.error\<close>, and the message contents handed to \<open>invoke_model\<close>, both in order.
\<close>

record ui_state =
  processing :: bool
  errors :: "string list"
  calls :: "string list"

definition st_error :: "string \<Rightarrow> ui_state \<Rightarrow> ui_state" where
  "st_error msg st = st\<lparr>errors := errors st @ [msg]\<rparr>"

section \<open>is_scanned_pdf\<close>

text \<open>The loop of lines 75 to 79 over the pages to check.\<close>

fun scan_pages :: "page list \<Rightarrow> string \<Rightarrow> exn + string" where
  "scan_pages [] text_content = Inr text_content"
| "scan_pages (p # ps) text_content =
     (case p of
        Inl e \<Rightarrow> Inl e
      | Inr text \<Rightarrow>
          (case text of
             None \<Rightarrow> scan_pages ps text_content
           | Some t \<Rightarrow> if t \<noteq> [] then scan_pages ps (text_content @ t)
                       else scan_pages ps text_content))"

text \<open>The body of the \<^verbatim>\<open>try\<close>, lines 66 to 85.\<close>

definition is_scanned_try :: "env \<Rightarrow> bytes \<Rightarrow> exn + bool" where
  "is_scanned_try env pdf_file =
     and_then (pdfplumber_open env pdf_file) (\<lambda>pages.
       if length pages = 0 then Inr True
       else
         let pages_to_check = min 3 (length pages) in
         and_then (scan_pages (take pages_to_check pages) []) (\<lambda>text_content.
           if length (py_strip text_content) > 100 then Inr False else Inr True))"

definition is_scanned_pdf :: "env \<Rightarrow> bytes \<Rightarrow> ui_state \<Rightarrow> (exn + bool) \<times> ui_state" where
  "is_scanned_pdf env pdf_file st =
     (case is_scanned_try env pdf_file of
        Inr b \<Rightarrow> (Inr b, st)
      | Inl e \<Rightarrow> (Inr True, st_error (''Error checking PDF: '' @ e) st))"

section \<open>insert_document\<close>

definition insert_document :: "env \<Rightarrow> json \<Rightarrow> string" where
  "insert_document env doc_data = ''doc_'' @ now_stamp env"

section \<open>bedrock_calling\<close>

definition message_content :: "string \<Rightarrow> string \<Rightarrow> string" where
  "message_content system_prompt prompt_type = system_prompt @ '' \<newline>\<newline> '' @ prompt_type"

text \<open>Lines 159 to 161: from the first opening brace to the last closing one.\<close>

definition extract_json :: "string \<Rightarrow> string" where
  "extract_json response_text =
     (let start = py_find (CHR ''{'') response_text;
          end' = py_rfind (CHR ''}'') response_text + 1
      in py_slice response_text start end')"

text \<open>Lines 121 to 156: the call, and the text of the first content item of its body.\<close>

definition response_text_of :: "env \<Rightarrow> string list \<Rightarrow> string \<Rightarrow> exn + string" where
  "response_text_of env sent content =
     and_then (invoke_model env sent content) (\<lambda>body.
     and_then (json_loads env body) (\<lambda>response_body.
     and_then (py_get response_body ''content'') (\<lambda>c.
     and_then (py_item0 c) (\<lambda>c0.
     and_then (py_get c0 ''text'') (\<lambda>t.
       py_find_receiver t)))))"

text \<open>The body of the \<^verbatim>\<open>try\<close>, lines 121 to 162.\<close>

definition bedrock_try :: "env \<Rightarrow> string list \<Rightarrow> string \<Rightarrow> exn + json" where
  "bedrock_try env sent content =
     and_then (response_text_of env sent content) (\<lambda>response_text.
       json_loads env (extract_json response_text))"

definition error_dict :: "exn \<Rightarrow> json" where
  "error_dict e = JObject [(''error'', JString e)]"

definition bedrock_calling ::
  "env \<Rightarrow> string \<Rightarrow> string \<Rightarrow> string \<Rightarrow> ui_state \<Rightarrow> (exn + json) \<times> ui_state" where
  "bedrock_calling env system_prompt prompt_type pdf_text st =
     (let content = message_content system_prompt prompt_type;
          st1 = st\<lparr>calls := calls st @ [content]\<rparr>
      in case bedrock_try env (calls st) content of
           Inr v \<Rightarrow> (Inr v, st1)
         | Inl e \<Rightarrow> (Inr (error_dict e), st_error (''Error calling Bedrock API: '' @ e) st1))"

section \<open>get_document_class\<close>

definition get_document_class :: "env \<Rightarrow> string \<Rightarrow> ui_state \<Rightarrow> (exn + json) \<times> ui_state" where
  "get_document_class env pdf_text st =
     (let classification_prompt = user_prompt_classification (prompts_module env) pdf_text;
          system_prompt = system_prompt_for_doc_classification (prompts_module env)
      in bedrock_calling env system_prompt classification_prompt pdf_text st)"

text \<open>The message content of the classification call for an extracted text.\<close>

definition classification_content :: "env \<Rightarrow> string \<Rightarrow> string" where
  "classification_content env pdf_text =
     message_content (system_prompt_for_doc_classification (prompts_module env))
       (user_prompt_classification (prompts_module env) pdf_text)"

section \<open>get_document_analysis\<close>

definition prompt_mapping :: "prompts \<Rightarrow> (int \<times> (string \<Rightarrow> string \<Rightarrow> string)) list" where
  "prompt_mapping p =
     [(0, user_prompt_poi p), (1, user_prompt_poa p), (2, user_prompt_registration p),
      (3, user_prompt_ownership p), (4, user_prompt_tax_return p), (5, user_prompt_financial p)]"

definition system_prompt_mapping :: "prompts \<Rightarrow> (int \<times> string) list" where
  "system_prompt_mapping p =
     [(0, system_prompt_for_indentity_doc p), (1, system_prompt_for_poa_doc p),
      (2, system_prompt_for_registration_doc p), (3, system_prompt_for_ownership_doc p),
      (4, system_prompt_for_tax_return_doc p), (5, system_prompt_for_financial_doc p)]"

text \<open>
  The lookup of a value among integer keys, as \<^verbatim>\<open>in\<close> and the subscript of a dict do it,
  by hash and equality: \<^verbatim>\<open>True\<close> and \<^verbatim>\<open>1.0\<close> are the key \<open>1\<close>, a list or a dict cannot be
  hashed, and everything else equals no integer.
\<close>

fun int_key :: "json \<Rightarrow> exn + int option" where
  "int_key JNull = Inr None"
| "int_key (JBool b) = Inr (Some (if b then 1 else 0))"
| "int_key (JInt i) = Inr (Some i)"
| "int_key (JFloat (Finite r)) = Inr (if of_int \<lfloor>r\<rfloor> = r then Some \<lfloor>r\<rfloor> else None)"
| "int_key (JFloat f) = Inr None"
| "int_key (JString s) = Inr None"
| "int_key v = Inl (''unhashable type: '' @ quoted (py_type_name v))"

text \<open>\<^verbatim>\<open>str(v)\<close>, as the f-string of line 217 formats the class.\<close>

fun py_str :: "env \<Rightarrow> json \<Rightarrow> string" where
  "py_str env JNull = ''None''"
| "py_str env (JBool b) = (if b then ''True'' else ''False'')"
| "py_str env (JInt i) = show_int i"
| "py_str env (JString s) = s"
| "py_str env v = repr_other env v"

definition dict_lookup :: "(int \<times> 'a) list \<Rightarrow> int option \<Rightarrow> 'a option" where
  "dict_lookup m k = (case k of None \<Rightarrow> None | Some i \<Rightarrow> map_of m i)"

text \<open>
  Lines 197 to 224. The \<^verbatim>\<open>st.status\<close> block only draws a progress label and is left out.
  The subscript of line 220 would raise \<^verbatim>\<open>KeyError\<close> on a key the second table lacks.
\<close>

definition get_document_analysis ::
  "env \<Rightarrow> json \<Rightarrow> string \<Rightarrow> ui_state \<Rightarrow> (exn + json) \<times> ui_state" where
  "get_document_analysis env doc_class pdf_text st =
     (case int_key doc_class of
        Inl e \<Rightarrow> (Inl e, st)
      | Inr k \<Rightarrow>
          (case dict_lookup (prompt_mapping (prompts_module env)) k of
             None \<Rightarrow>
               (let msg = ''Invalid document class: '' @ py_str env doc_class
                in (Inr (error_dict msg), st_error msg st))
           | Some builder \<Rightarrow>
               (let user_prompt = builder pdf_text (today env)
                in case dict_lookup (system_prompt_mapping (prompts_module env)) k of
                     None \<Rightarrow> (Inl (py_str env doc_class), st)
                   | Some system_prompt \<Rightarrow>
                       bedrock_calling env system_prompt user_prompt pdf_text st)))"

section \<open>process_document\<close>

text \<open>\<^verbatim>\<open>text or ""\<close>: the empty string for \<^verbatim>\<open>None\<close>, and an empty text is the empty string.\<close>

definition or_empty :: "string option \<Rightarrow> string" where
  "or_empty text = (case text of None \<Rightarrow> [] | Some t \<Rightarrow> t)"

text \<open>Line 254: the text of every page, \<^verbatim>\<open>""\<close> for a page that gives none.\<close>

fun page_texts :: "page list \<Rightarrow> exn + string list" where
  "page_texts [] = Inr []"
| "page_texts (p # ps) =
     (case p of
        Inl e \<Rightarrow> Inl e
      | Inr text \<Rightarrow> and_then (page_texts ps) (\<lambda>ts. Inr (or_empty text # ts)))"

definition scanned_message :: string where
  "scanned_message =
     ''This appears to be a scanned document. The current version does not support scanned PDFs.''"

text \<open>Lines 268 to 275: the final response, with the identifier of the store.\<close>

definition final_response :: "env \<Rightarrow> json \<Rightarrow> json \<Rightarrow> json" where
  "final_response env document_type analysis_result =
     (let response = [(''document_type'', document_type), (''analysis'', analysis_result)];
          mongo_obj_id = insert_document env (JObject response)
      in JObject (response @ [(''mongo_obj_id'', JString mongo_obj_id)]))"

text \<open>
  Lines 260 to 278, from the extracted text on. The outcome is the value returned, or the
  exception that reaches the handler of line 280.
\<close>

definition classify_and_analyse ::
  "env \<Rightarrow> string \<Rightarrow> ui_state \<Rightarrow> (exn + json option) \<times> ui_state" where
  "classify_and_analyse env extracted_text st =
     (case get_document_class env extracted_text st of
        (Inl e, st1) \<Rightarrow> (Inl e, st1)
      | (Inr classification_result, st1) \<Rightarrow>
          (case py_get classification_result ''class'' of
             Inl e \<Rightarrow> (Inl e, st1)
           | Inr doc_class \<Rightarrow>
               (case get_document_analysis env doc_class extracted_text st1 of
                  (Inl e, st2) \<Rightarrow> (Inl e, st2)
                | (Inr analysis_result, st2) \<Rightarrow>
                    (case py_get classification_result ''category'' of
                       Inl e \<Rightarrow> (Inl e, st2)
                     | Inr document_type \<Rightarrow>
                         (Inr (Some (JObject
                            [(''result'', final_response env document_type analysis_result)])),
                          st2\<lparr>processing := False\<rparr>)))))"

text \<open>The body of the \<^verbatim>\<open>try\<close>, lines 237 to 278.\<close>

definition process_try :: "env \<Rightarrow> bytes \<Rightarrow> ui_state \<Rightarrow> (exn + json option) \<times> ui_state" where
  "process_try env file_bytes st =
     (case is_scanned_pdf env file_bytes (st\<lparr>processing := True\<rparr>) of
        (Inl e, st1) \<Rightarrow> (Inl e, st1)
      | (Inr scanned, st1) \<Rightarrow>
          if scanned then (Inr None, (st_error scanned_message st1)\<lparr>processing := False\<rparr>)
          else
            (case pdfplumber_open env file_bytes of
               Inl e \<Rightarrow> (Inl e, st1)
             | Inr pages \<Rightarrow>
                 (case page_texts pages of
                    Inl e \<Rightarrow> (Inl e, st1)
                  | Inr ts \<Rightarrow> classify_and_analyse env (py_join ''\<newline>'' ts) st1)))"

definition process_document :: "env \<Rightarrow> bytes \<Rightarrow> ui_state \<Rightarrow> json option \<times> ui_state" where
  "process_document env file_bytes st =
     (case process_try env file_bytes st of
        (Inr r, st1) \<Rightarrow> (r, st1)
      | (Inl e, st1) \<Rightarrow>
          (None, (st_error (''Error processing document: '' @ e) st1)\<lparr>processing := False\<rparr>))"

section \<open>Doubles for the collaborators\<close>

text \<open>
  To run the program on concrete documents the collaborators are replaced by doubles, as
  a test would mock them. \<open>loads_double\<close> reads the JSON documents made of objects, arrays,
  strings with the one-letter escapes, integers and the three literals, with the white
  space and the last-key-wins rule of \<^verbatim>\<open>json.loads\<close>; it refuses everything else, also the
  numbers with a fraction or an exponent that \<^verbatim>\<open>json.loads\<close> reads as floats. The text of
  its error is the one of CPython for the empty document and a placeholder otherwise.
\<close>

definition json_ws :: "char \<Rightarrow> bool" where
  "json_ws c = (c = CHR '' '' \<or> c = CHR 0x09 \<or> c = CHR 0x0A \<or> c = CHR 0x0D)"

definition skip_ws :: "string \<Rightarrow> string" where
  "skip_ws s = dropWhile json_ws s"

definition unescape :: "char \<Rightarrow> char option" where
  "unescape c =
     (if c = CHR 0x22 then Some (CHR 0x22)
      else if c = CHR 0x5C then Some (CHR 0x5C)
      else if c = CHR ''/'' then Some (CHR ''/'')
      else if c = CHR ''b'' then Some (CHR 0x08)
      else if c = CHR ''f'' then Some (CHR 0x0C)
      else if c = CHR ''n'' then Some (CHR 0x0A)
      else if c = CHR ''r'' then Some (CHR 0x0D)
      else if c = CHR ''t'' then Some (CHR 0x09)
      else None)"

text \<open>The characters of a string up to its closing quote, and what follows it.\<close>

fun scan_string :: "string \<Rightarrow> string \<Rightarrow> (string \<times> string) option" where
  "scan_string [] acc = None"
| "scan_string [c] acc = (if c = CHR 0x22 then Some (rev acc, []) else None)"
| "scan_string (c # d # cs) acc =
     (if c = CHR 0x22 then Some (rev acc, d # cs)
      else if c = CHR 0x5C then
        (case unescape d of None \<Rightarrow> None | Some x \<Rightarrow> scan_string cs (x # acc))
      else if of_char c < (32 :: nat) then None
      else scan_string (d # cs) (c # acc))"

definition is_digit :: "char \<Rightarrow> bool" where
  "is_digit c = (48 \<le> (of_char c :: nat) \<and> (of_char c :: nat) \<le> 57)"

definition digits_value :: "string \<Rightarrow> int" where
  "digits_value ds = foldl (\<lambda>a d. 10 * a + (int (of_char d) - 48)) 0 ds"

text \<open>A number stops after a leading zero.\<close>

definition scan_digits :: "string \<Rightarrow> (int \<times> string) option" where
  "scan_digits s =
     (let ds = takeWhile is_digit s; r = dropWhile is_digit s
      in if ds = [] then None
         else if hd ds = CHR ''0'' \<and> length ds > 1 then Some (0, tl ds @ r)
         else Some (digits_value ds, r))"

definition float_follows :: "string \<Rightarrow> bool" where
  "float_follows r =
     (case r of [] \<Rightarrow> False | c # cs \<Rightarrow> c = CHR ''.'' \<or> c = CHR ''e'' \<or> c = CHR ''E'')"

definition scan_number :: "string \<Rightarrow> (json \<times> string) option" where
  "scan_number s =
     (case s of
        [] \<Rightarrow> None
      | c # cs \<Rightarrow>
          (case (if c = CHR ''-'' then scan_digits cs else scan_digits s) of
             None \<Rightarrow> None
           | Some (n, r) \<Rightarrow>
               if float_follows r then None
               else Some (JInt (if c = CHR ''-'' then - n else n), r)))"

text \<open>\<^verbatim>\<open>d[k] = v\<close>: a key already there keeps its place.\<close>

definition dict_set :: "string \<Rightarrow> json \<Rightarrow> (string \<times> json) list \<Rightarrow> (string \<times> json) list" where
  "dict_set k v kvs =
     (if map_of kvs k = None then kvs @ [(k, v)]
      else map (\<lambda>(k', v'). if k' = k then (k', v) else (k', v')) kvs)"

text \<open>The first argument bounds the number of values, members and elements read.\<close>

fun scan_value :: "nat \<Rightarrow> string \<Rightarrow> (json \<times> string) option"
  and scan_members :: "nat \<Rightarrow> string \<Rightarrow> (string \<times> json) list \<Rightarrow> (json \<times> string) option"
  and scan_elements :: "nat \<Rightarrow> string \<Rightarrow> json list \<Rightarrow> (json \<times> string) option" where
  "scan_value 0 s = None"
| "scan_value (Suc n) s =
     (case s of
        [] \<Rightarrow> None
      | c # cs \<Rightarrow>
          if c = CHR 0x22 then
            (case scan_string cs [] of None \<Rightarrow> None | Some (x, r) \<Rightarrow> Some (JString x, r))
          else if c = CHR ''{'' then
            (case skip_ws cs of
               [] \<Rightarrow> None
             | d # ds \<Rightarrow>
                 if d = CHR ''}'' then Some (JObject [], ds) else scan_members n (d # ds) [])
          else if c = CHR ''['' then
            (case skip_ws cs of
               [] \<Rightarrow> None
             | d # ds \<Rightarrow>
                 if d = CHR '']'' then Some (JArray [], ds) else scan_elements n (d # ds) [])
          else if take 4 s = ''null'' then Some (JNull, drop 4 s)
          else if take 4 s = ''true'' then Some (JBool True, drop 4 s)
          else if take 5 s = ''false'' then Some (JBool False, drop 5 s)
          else scan_number s)"
| "scan_members 0 s acc = None"
| "scan_members (Suc n) s acc =
     (case s of
        [] \<Rightarrow> None
      | q # cs \<Rightarrow>
          if q \<noteq> CHR 0x22 then None
          else
            (case scan_string cs [] of
               None \<Rightarrow> None
             | Some (key, r1) \<Rightarrow>
                 (case skip_ws r1 of
                    [] \<Rightarrow> None
                  | colon # r2 \<Rightarrow>
                      if colon \<noteq> CHR '':'' then None
                      else
                        (case scan_value n (skip_ws r2) of
                           None \<Rightarrow> None
                         | Some (v, r3) \<Rightarrow>
                             (case skip_ws r3 of
                                [] \<Rightarrow> None
                              | d # r4 \<Rightarrow>
                                  if d = CHR ''}'' then Some (JObject (dict_set key v acc), r4)
                                  else if d = CHR '','' then
                                    scan_members n (skip_ws r4) (dict_set key v acc)
                                  else None)))))"
| "scan_elements 0 s acc = None"
| "scan_elements (Suc n) s acc =
     (case scan_value n s of
        None \<Rightarrow> None
      | Some (v, r1) \<Rightarrow>
          (case skip_ws r1 of
             [] \<Rightarrow> None
           | d # r2 \<Rightarrow>
               if d = CHR '']'' then Some (JArray (acc @ [v]), r2)
               else if d = CHR '','' then scan_elements n (skip_ws r2) (acc @ [v])
               else None))"

definition loads_double :: "string \<Rightarrow> exn + json" where
  "loads_double s =
     (if s = [] then Inl ''Expecting value: line 1 column 1 (char 0)''
      else
        (case scan_value (Suc (length s)) (skip_ws s) of
           None \<Rightarrow> Inl ''JSONDecodeError''
         | Some (v, r) \<Rightarrow> if skip_ws r = [] then Inr v else Inl ''JSONDecodeError''))"

text \<open>
  The service double answers the \<open>n\<close>-th call with the \<open>n\<close>-th entry of a script. An entry
  is an exception, or the body that wraps a model text as the service does.
\<close>

definition json_escape :: "string \<Rightarrow> string" where
  "json_escape s =
     concat (map (\<lambda>c. if c = CHR 0x22 \<or> c = CHR 0x5C then [CHR 0x5C, c] else [c]) s)"

definition reply :: "string \<Rightarrow> exn + string" where
  "reply text =
     Inr (''{'' @ [CHR 0x22] @ ''content'' @ [CHR 0x22] @ '':[{'' @ [CHR 0x22] @ ''type''
          @ [CHR 0x22] @ '':'' @ [CHR 0x22] @ ''text'' @ [CHR 0x22] @ '','' @ [CHR 0x22]
          @ ''text'' @ [CHR 0x22] @ '':'' @ [CHR 0x22] @ json_escape text @ [CHR 0x22]
          @ ''}]}'')"

definition scripted :: "(exn + string) list \<Rightarrow> string list \<Rightarrow> string \<Rightarrow> exn + string" where
  "scripted script sent content =
     (if length sent < length script then script ! length sent
      else Inl ''no scripted response'')"

definition prompts_double :: prompts where
  "prompts_double =
     \<lparr> user_prompt_classification = (\<lambda>t. ''Classify: '' @ t),
       system_prompt_for_doc_classification = ''You classify documents.'',
       user_prompt_poi = (\<lambda>t d. ''POI '' @ d @ '': '' @ t),
       user_prompt_poa = (\<lambda>t d. ''POA '' @ d @ '': '' @ t),
       user_prompt_registration = (\<lambda>t d. ''REG '' @ d @ '': '' @ t),
       user_prompt_ownership = (\<lambda>t d. ''OWN '' @ d @ '': '' @ t),
       user_prompt_tax_return = (\<lambda>t d. ''TAX '' @ d @ '': '' @ t),
       user_prompt_financial = (\<lambda>t d. ''FIN '' @ d @ '': '' @ t),
       system_prompt_for_indentity_doc = ''identity'',
       system_prompt_for_poa_doc = ''address'',
       system_prompt_for_registration_doc = ''registration'',
       system_prompt_for_ownership_doc = ''ownership'',
       system_prompt_for_tax_return_doc = ''tax return'',
       system_prompt_for_financial_doc = ''financial'' \<rparr>"

definition env_double :: "(exn + page list) \<Rightarrow> (exn + string) list \<Rightarrow> env" where
  "env_double pdf script =
     \<lparr> pdfplumber_open = (\<lambda>b. pdf),
       invoke_model = scripted script,
       json_loads = loads_double,
       repr_other = (\<lambda>v. ''<'' @ py_type_name v @ ''>''),
       today = ''2025-01-15'',
       now_stamp = ''20250115093000'',
       prompts_module = prompts_double \<rparr>"

definition st0 :: ui_state where
  "st0 = \<lparr> processing = False, errors = [], calls = [] \<rparr>"

section \<open>Scenarios\<close>

text \<open>
  The documents and service scripts on which the program is run below: an upload of one
  page with twenty characters (A); four pages, the first with 101 characters and the second
  without text, classified as a passport and analysed (B); the same pages with a
  classification answer that holds no JSON (C), or with the class 9; bytes that
  \<^verbatim>\<open>pdfplumber\<close> cannot open; and documents of which the second or the fourth page
  raises when its text is read.
\<close>

definition pdf_bytes :: bytes where
  "pdf_bytes = [0x25, 0x50, 0x44, 0x46]"

definition long_page :: string where
  "long_page = replicate 101 (CHR ''x'')"

definition texts_B :: "string option list" where
  "texts_B = [Some long_page, None, Some ''p3'', Some ''last page'']"

definition scenario_A :: env where
  "scenario_A = env_double (Inr [Inr (Some ''twenty characters ok'')]) []"

definition scenario_B :: env where
  \<open>scenario_B = env_double (Inr (map Inr texts_B))
     [reply ''{"class":0,"category":"Passport"}'',
      reply ''{"summary":"...", "extracted_fields":{"name":"Jane Doe"}}'']\<close>

definition scenario_C :: env where
  "scenario_C = env_double (Inr (map Inr texts_B)) [reply ''I cannot classify this.'']"

definition scenario_class9 :: env where
  \<open>scenario_class9 = env_double (Inr (map Inr texts_B)) [reply ''{"class":9,"category":"Other"}'']\<close>

definition scenario_corrupt :: env where
  "scenario_corrupt = env_double (Inl ''No /Root object! - Is this really a PDF?'') []"

definition scenario_sampled_failure :: env where
  "scenario_sampled_failure =
     env_double (Inr [Inr (Some long_page), Inl ''bad page'', Inr (Some ''p3'')]) []"

definition scenario_late_failure :: env where
  "scenario_late_failure =
     env_double (Inr [Inr (Some long_page), Inr None, Inr (Some ''p3''), Inl ''bad page'']) []"

section \<open>Facts about the string operations\<close>

lemma takeWhile_until: "c \<notin> set a \<Longrightarrow> takeWhile (\<lambda>x. x \<noteq> c) (a @ c # b) = a"
  by (induction a) auto

lemma py_find_first:
  assumes "c \<notin> set a"
  shows "py_find c (a @ c # b) = int (length a)"
proof -
  have "takeWhile (\<lambda>x. x \<noteq> c) (a @ c # b) = a"
    using assms by (rule takeWhile_until)
  then show ?thesis by (simp add: py_find_def)
qed

lemma py_rfind_last:
  assumes "c \<notin> set b"
  shows "py_rfind c (a @ c # b) = int (length a)"
proof -
  have "c \<notin> set (rev b)" using assms by simp
  then have "takeWhile (\<lambda>x. x \<noteq> c) (rev b @ c # rev a) = rev b"
    by (rule takeWhile_until)
  then show ?thesis by (simp add: py_rfind_def)
qed

lemma slice_bound_nat: "k \<le> n \<Longrightarrow> slice_bound n (int k) = k"
  by (simp add: slice_bound_def)

lemma slice_bound_succ: "k < n \<Longrightarrow> slice_bound n (int k + 1) = k + 1"
  by (simp add: slice_bound_def)

lemma extract_json_pair:
  assumes "CHR ''{'' \<notin> set pre" and "CHR ''}'' \<notin> set post"
  shows "extract_json (pre @ CHR ''{'' # mid @ CHR ''}'' # post) = CHR ''{'' # mid @ ''}''"
proof -
  let ?t = "pre @ CHR ''{'' # mid @ CHR ''}'' # post"
  have f: "py_find (CHR ''{'') ?t = int (length pre)"
    using assms(1) by (rule py_find_first)
  have "py_rfind (CHR ''}'') ((pre @ CHR ''{'' # mid) @ CHR ''}'' # post) = int (length (pre @ CHR ''{'' # mid))"
    using assms(2) by (rule py_rfind_last)
  then have r: "py_rfind (CHR ''}'') ?t + 1 = int (length pre + length mid + 2)"
    by simp
  have b1: "slice_bound (length ?t) (int (length pre)) = length pre"
    by (rule slice_bound_nat) simp
  have b2: "slice_bound (length ?t) (int (length pre + length mid + 2)) = length pre + length mid + 2"
    by (rule slice_bound_nat) simp
  have "extract_json ?t = drop (length pre) (take (length pre + length mid + 2) ?t)"
    unfolding extract_json_def py_slice_def Let_def f r b1 b2 ..
  also have "\<dots> = CHR ''{'' # mid @ ''}''"
    by simp
  finally show ?thesis .
qed

lemma extract_json_no_open:
  assumes "CHR ''{'' \<notin> set t"
  shows "extract_json t = [] \<or> extract_json t = ''}''"
proof (cases "CHR ''}'' \<in> set t")
  case False
  then show ?thesis
    using assms by (simp add: extract_json_def py_slice_def py_find_def py_rfind_def slice_bound_def)
next
  case True
  then obtain a b where t: "t = a @ CHR ''}'' # b" and nb: "CHR ''}'' \<notin> set b"
    by (meson split_list_last)
  have r: "py_rfind (CHR ''}'') t = int (length a)"
    unfolding t using nb by (rule py_rfind_last)
  have f: "py_find (CHR ''{'') t = - 1"
    using assms by (simp add: py_find_def)
  have b1: "slice_bound (length t) (- 1) = length t - 1"
    by (simp add: slice_bound_def)
  have b2: "slice_bound (length t) (int (length a) + 1) = length a + 1"
    by (rule slice_bound_succ) (simp add: t)
  have e: "extract_json t = drop (length t - 1) (take (length a + 1) t)"
    unfolding extract_json_def py_slice_def Let_def f r b1 b2 ..
  show ?thesis
  proof (cases b)
    case Nil
    then show ?thesis using e by (simp add: t)
  next
    case (Cons x xs)
    then show ?thesis using e by (simp add: t)
  qed
qed

lemma extract_json_no_close:
  assumes "CHR ''}'' \<notin> set t"
  shows "extract_json t = []"
  using assms by (simp add: extract_json_def py_slice_def py_rfind_def slice_bound_def)

lemma extract_json_no_pair:
  assumes "\<not> (\<exists>pre mid post. t = pre @ CHR ''{'' # mid @ CHR ''}'' # post)"
  shows "extract_json t = [] \<or> extract_json t = ''}''"
proof (cases "CHR ''{'' \<in> set t")
  case False
  then show ?thesis by (rule extract_json_no_open)
next
  case op: True
  show ?thesis
  proof (cases "CHR ''}'' \<in> set t")
    case False
    then show ?thesis by (simp add: extract_json_no_close)
  next
    case True
    from op obtain a b where t1: "t = a @ CHR ''{'' # b" and na: "CHR ''{'' \<notin> set a"
      by (meson split_list_first)
    from True obtain a' b' where t2: "t = a' @ CHR ''}'' # b'" and nb: "CHR ''}'' \<notin> set b'"
      by (meson split_list_last)
    have f: "py_find (CHR ''{'') t = int (length a)"
      unfolding t1 using na by (rule py_find_first)
    have r: "py_rfind (CHR ''}'') t = int (length a')"
      unfolding t2 using nb by (rule py_rfind_last)
    have le: "length a' < length a"
    proof (rule ccontr)
      assume "\<not> length a' < length a"
      then have "length a \<le> length a'" by simp
      moreover have "a @ CHR ''{'' # b = a' @ CHR ''}'' # b'" using t1 t2 by simp
      ultimately obtain m where "a' = a @ m" and m: "CHR ''{'' # b = m @ CHR ''}'' # b'"
        by (metis append_eq_append_conv_if append_take_drop_id)
      then obtain mid where "m = CHR ''{'' # mid"
        by (cases m) auto
      with m have "t = a @ CHR ''{'' # mid @ CHR ''}'' # b'"
        using t1 by simp
      with assms show False by blast
    qed
    have b1: "slice_bound (length t) (int (length a)) = length a"
      by (rule slice_bound_nat) (simp add: t1)
    have b2: "slice_bound (length t) (int (length a') + 1) = length a' + 1"
      by (rule slice_bound_succ) (simp add: t2)
    have "extract_json t = drop (length a) (take (length a' + 1) t)"
      unfolding extract_json_def py_slice_def Let_def f r b1 b2 ..
    then show ?thesis using le by simp
  qed
qed

section \<open>Facts about bedrock_calling and get_document_class\<close>

lemma bedrock_calling_eq:
  "bedrock_calling env sp pt txt st =
     (case bedrock_try env (calls st) (message_content sp pt) of
        Inr v \<Rightarrow> (Inr v, st\<lparr>calls := calls st @ [message_content sp pt]\<rparr>)
      | Inl e \<Rightarrow>
          (Inr (error_dict e),
           st\<lparr>calls := calls st @ [message_content sp pt],
              errors := errors st @ [''Error calling Bedrock API: '' @ e]\<rparr>))"
  by (simp add: bedrock_calling_def Let_def st_error_def split: sum.split)

lemma bedrock_calling_fst:
  "fst (bedrock_calling env sp pt txt st) =
     Inr (case bedrock_try env (calls st) (message_content sp pt) of
            Inl e \<Rightarrow> error_dict e | Inr v \<Rightarrow> v)"
  by (simp add: bedrock_calling_def Let_def split: sum.split)

lemma bedrock_calling_snd:
  "snd (bedrock_calling env sp pt txt st) =
     st\<lparr>calls := calls st @ [message_content sp pt],
        errors := errors st @
          (case bedrock_try env (calls st) (message_content sp pt) of
             Inl e \<Rightarrow> [''Error calling Bedrock API: '' @ e] | Inr v \<Rightarrow> [])\<rparr>"
  by (simp add: bedrock_calling_def Let_def st_error_def split: sum.split)

lemma error_dict_get: "py_get (error_dict e) ''error'' = Inr (JString e)"
  by (simp add: error_dict_def dict_get_def)

lemma get_document_class_eq:
  "get_document_class env text st =
     bedrock_calling env (system_prompt_for_doc_classification (prompts_module env))
       (user_prompt_classification (prompts_module env) text) text st"
  by (simp add: get_document_class_def Let_def)

lemma get_document_class_fst:
  "fst (get_document_class env text st) =
     Inr (case bedrock_try env (calls st) (classification_content env text) of
            Inl e \<Rightarrow> error_dict e | Inr v \<Rightarrow> v)"
  by (simp add: get_document_class_eq bedrock_calling_fst classification_content_def)

lemma get_document_class_snd:
  "snd (get_document_class env text st) =
     st\<lparr>calls := calls st @ [classification_content env text],
        errors := errors st @
          (case bedrock_try env (calls st) (classification_content env text) of
             Inl e \<Rightarrow> [''Error calling Bedrock API: '' @ e] | Inr v \<Rightarrow> [])\<rparr>"
  by (simp add: get_document_class_eq bedrock_calling_snd classification_content_def)

section \<open>Facts about is_scanned_pdf\<close>

lemma scan_pages_texts:
  "scan_pages (map Inr texts) acc = Inr (acc @ concat (map or_empty texts))"
proof (induction texts arbitrary: acc)
  case Nil
  show ?case by simp
next
  case (Cons t ts)
  show ?case
    by (cases t) (simp_all add: Cons.IH or_empty_def)
qed

lemma page_texts_texts:
  "page_texts (map Inr texts) = Inr (map or_empty texts)"
  by (induction texts) (simp_all add: and_then_def)

lemma is_scanned_pdf_fst:
  "fst (is_scanned_pdf env b st) = Inr (case is_scanned_try env b of Inl e \<Rightarrow> True | Inr r \<Rightarrow> r)"
  by (simp add: is_scanned_pdf_def split: sum.split)

lemma is_scanned_pdf_snd:
  "snd (is_scanned_pdf env b st) =
     (case is_scanned_try env b of
        Inl e \<Rightarrow> st_error (''Error checking PDF: '' @ e) st
      | Inr r \<Rightarrow> st)"
  by (simp add: is_scanned_pdf_def split: sum.split)

lemma is_scanned_try_texts:
  assumes "pdfplumber_open env b = Inr pages" and "take 3 pages = map Inr texts"
  shows "is_scanned_try env b =
           Inr (length (py_strip (concat (map or_empty texts))) \<le> 100)"
proof (cases "pages = []")
  case True
  with assms show ?thesis
    by (simp add: is_scanned_try_def and_then_def py_strip_def)
next
  case False
  have "take (min 3 (length pages)) pages = take 3 pages"
    by (simp add: min_def)
  with assms False show ?thesis
    by (simp add: is_scanned_try_def and_then_def Let_def scan_pages_texts not_less)
qed

lemma is_scanned_pdf_total: "\<exists>r. fst (is_scanned_pdf env b st) = Inr r"
  by (simp add: is_scanned_pdf_fst)

lemma is_scanned_pdf_failure:
  assumes "is_scanned_try env b = Inl e"
  shows "is_scanned_pdf env b st = (Inr True, st_error (''Error checking PDF: '' @ e) st)"
  using assms by (simp add: is_scanned_pdf_def)

lemma not_scanned_try:
  assumes "fst (is_scanned_pdf env b st) = Inr False"
  shows "is_scanned_try env b = Inr False"
  using assms by (simp add: is_scanned_pdf_fst split: sum.splits)

lemma scan_pages_raise:
  "scan_pages (map Inr texts @ Inl e # rest) acc = Inl e"
proof (induction texts arbitrary: acc)
  case Nil
  show ?case by simp
next
  case (Cons t ts)
  show ?case by (cases t) (simp_all add: Cons.IH)
qed

lemma page_texts_raise:
  "page_texts (map Inr texts @ Inl e # rest) = Inl e"
  by (induction texts) (simp_all add: and_then_def)

lemma take_sampled_raise:
  assumes "length texts < 3"
  shows "\<exists>rest'. take 3 (map Inr texts @ Inl e # rest) = map Inr texts @ Inl e # rest'"
proof (cases "3 - length texts")
  case 0
  with assms show ?thesis by simp
next
  case (Suc n)
  with assms show ?thesis by simp
qed

lemma is_scanned_try_sampled_raise:
  assumes "pdfplumber_open env b = Inr (map Inr texts @ Inl e # rest)" and "length texts < 3"
  shows "is_scanned_try env b = Inl e"
proof -
  let ?pages = "map Inr texts @ Inl e # rest"
  obtain rest' where t: "take 3 ?pages = map Inr texts @ Inl e # rest'"
    using take_sampled_raise [OF assms(2), of e rest] by blast
  have "take (min 3 (length ?pages)) ?pages = take 3 ?pages" by (simp add: min_def)
  then have "scan_pages (take (min 3 (length ?pages)) ?pages) [] = Inl e"
    by (simp only: t scan_pages_raise)
  with assms(1) show ?thesis
    by (simp add: is_scanned_try_def and_then_def Let_def)
qed

lemma is_scanned_try_late_raise:
  assumes "pdfplumber_open env b = Inr (map Inr texts @ Inl e # rest)" and "3 \<le> length texts"
  shows "is_scanned_try env b =
           Inr (length (py_strip (concat (map or_empty (take 3 texts)))) \<le> 100)"
proof -
  have "take 3 (map Inr texts @ Inl e # rest) = map Inr (take 3 texts)"
    using assms(2) by (simp add: take_map)
  from is_scanned_try_texts [OF assms(1) this] show ?thesis .
qed

section \<open>Facts about get_document_analysis and process_document\<close>

lemma prompt_mapping_none:
  "dict_lookup (prompt_mapping p) k = None \<longleftrightarrow> (case k of None \<Rightarrow> True | Some i \<Rightarrow> i < 0 \<or> 5 < i)"
  by (auto simp add: dict_lookup_def prompt_mapping_def split: option.split)

lemma get_document_analysis_invalid:
  assumes "int_key doc_class = Inr k" and "dict_lookup (prompt_mapping (prompts_module env)) k = None"
  shows "get_document_analysis env doc_class text st =
           (Inr (error_dict (''Invalid document class: '' @ py_str env doc_class)),
            st_error (''Invalid document class: '' @ py_str env doc_class) st)"
  using assms by (simp add: get_document_analysis_def Let_def)

lemma get_document_analysis_unhashable:
  assumes "int_key doc_class = Inl e"
  shows "get_document_analysis env doc_class text st = (Inl e, st)"
  using assms by (simp add: get_document_analysis_def)

lemma process_try_scanned:
  assumes "fst (is_scanned_pdf env b (st\<lparr>processing := True\<rparr>)) = Inr True"
  shows "process_try env b st =
           (Inr None, (st_error scanned_message (snd (is_scanned_pdf env b (st\<lparr>processing := True\<rparr>))))
                        \<lparr>processing := False\<rparr>)"
proof (cases "is_scanned_pdf env b (st\<lparr>processing := True\<rparr>)")
  case (Pair r st1)
  with assms show ?thesis by (simp add: process_try_def)
qed

lemma process_try_text:
  assumes "pdfplumber_open env b = Inr (map Inr texts)" and "is_scanned_try env b = Inr False"
  shows "process_try env b st =
           classify_and_analyse env (py_join ''\<newline>'' (map or_empty texts)) (st\<lparr>processing := True\<rparr>)"
  using assms by (simp add: process_try_def is_scanned_pdf_def page_texts_texts)

lemma process_document_scanned:
  assumes "fst (is_scanned_pdf env b (st\<lparr>processing := True\<rparr>)) = Inr True"
  shows "process_document env b st =
           (None, (st_error scanned_message (snd (is_scanned_pdf env b (st\<lparr>processing := True\<rparr>))))
                        \<lparr>processing := False\<rparr>)"
  by (simp add: process_document_def process_try_scanned [OF assms])

lemma get_document_analysis_calls:
  "\<exists>rest. calls (snd (get_document_analysis env d text st)) = calls st @ rest"
  by (auto simp add: get_document_analysis_def Let_def st_error_def bedrock_calling_snd
      split: sum.split option.split)

lemma classify_and_analyse_calls:
  "\<exists>rest. calls (snd (classify_and_analyse env text st)) = calls st @ classification_content env text # rest"
proof (cases "get_document_class env text st")
  case (Pair c st1)
  have c1: "calls st1 = calls st @ [classification_content env text]"
    using get_document_class_snd [of env "text" st] Pair by simp
  show ?thesis
  proof (cases c)
    case (Inl e)
    with Pair c1 show ?thesis by (simp add: classify_and_analyse_def)
  next
    case (Inr cr)
    show ?thesis
    proof (cases "py_get cr ''class''")
      case (Inl e)
      with Pair Inr c1 show ?thesis by (simp add: classify_and_analyse_def)
    next
      case g: (Inr d)
      obtain rest where r: "calls (snd (get_document_analysis env d text st1)) = calls st1 @ rest"
        using get_document_analysis_calls by blast
      show ?thesis
      proof (cases "get_document_analysis env d text st1")
        case a: (Pair ar st2)
        with r have "calls st2 = calls st @ classification_content env text # rest"
          using c1 by simp
        with Pair Inr g a show ?thesis
          by (auto simp add: classify_and_analyse_def split: sum.split)
      qed
    qed
  qed
qed

lemma process_document_calls:
  "calls (snd (process_document env b st)) = calls (snd (process_try env b st))"
  by (cases "process_try env b st") (auto simp add: process_document_def st_error_def split: sum.split)

lemma classify_and_analyse_invalid:
  assumes c: "fst (get_document_class env text st) = Inr (JObject kvs)"
    and k: "int_key (dict_get kvs ''class'') = Inr k"
    and n: "dict_lookup (prompt_mapping (prompts_module env)) k = None"
  shows "classify_and_analyse env text st =
           (Inr (Some (JObject [(''result'',
              final_response env (dict_get kvs ''category'')
                (error_dict (''Invalid document class: '' @ py_str env (dict_get kvs ''class''))))])),
            (st_error (''Invalid document class: '' @ py_str env (dict_get kvs ''class''))
               (snd (get_document_class env text st)))\<lparr>processing := False\<rparr>)"
proof (cases "get_document_class env text st")
  case (Pair r st1)
  with c have r: "r = Inr (JObject kvs)" by simp
  have a: "get_document_analysis env (dict_get kvs ''class'') text st1 =
       (Inr (error_dict (''Invalid document class: '' @ py_str env (dict_get kvs ''class''))),
        st_error (''Invalid document class: '' @ py_str env (dict_get kvs ''class'')) st1)"
    using k n by (rule get_document_analysis_invalid)
  show ?thesis
    using Pair r a by (simp add: classify_and_analyse_def dict_get_def)
qed

lemma classify_and_analyse_some:
  assumes "fst (classify_and_analyse env text st) = Inr (Some r)"
  shows "\<exists>kvs analysis.
           fst (get_document_class env text st) = Inr (JObject kvs)
         \<and> fst (get_document_analysis env (dict_get kvs ''class'') text
                  (snd (get_document_class env text st))) = Inr analysis
         \<and> r = JObject [(''result'',
                  JObject [(''document_type'', dict_get kvs ''category''),
                           (''analysis'', analysis),
                           (''mongo_obj_id'', JString (''doc_'' @ now_stamp env))])]"
proof (cases "get_document_class env text st")
  case (Pair c st1)
  show ?thesis
  proof (cases c)
    case (Inl e)
    with Pair assms show ?thesis by (simp add: classify_and_analyse_def)
  next
    case (Inr cr)
    show ?thesis
    proof (cases cr)
      case (JObject kvs)
      show ?thesis
      proof (cases "get_document_analysis env (dict_get kvs ''class'') text st1")
        case a: (Pair ar st2)
        show ?thesis
        proof (cases ar)
          case (Inl e)
          with Pair Inr JObject a assms show ?thesis
            by (simp add: classify_and_analyse_def dict_get_def)
        next
          case ok: (Inr analysis)
          with Pair Inr JObject a assms show ?thesis
            by (auto simp add: classify_and_analyse_def dict_get_def final_response_def
                insert_document_def Let_def)
        qed
      qed
    qed (use Pair Inr assms in \<open>simp_all add: classify_and_analyse_def\<close>)
  qed
qed

lemma process_document_some:
  assumes "fst (process_document env b st) = Some r"
  shows "\<exists>pages ts. pdfplumber_open env b = Inr pages \<and> page_texts pages = Inr ts
           \<and> fst (classify_and_analyse env (py_join ''\<newline>'' ts) (st\<lparr>processing := True\<rparr>))
               = Inr (Some r)"
proof (cases "is_scanned_try env b")
  case (Inl e)
  then have "is_scanned_pdf env b (st\<lparr>processing := True\<rparr>) =
      (Inr True, st_error (''Error checking PDF: '' @ e) (st\<lparr>processing := True\<rparr>))"
    by (rule is_scanned_pdf_failure)
  with assms show ?thesis
    by (simp add: process_document_def process_try_def)
next
  case (Inr s)
  then have i: "is_scanned_pdf env b (st\<lparr>processing := True\<rparr>) = (Inr s, st\<lparr>processing := True\<rparr>)"
    by (simp add: is_scanned_pdf_def)
  show ?thesis
  proof (cases s)
    case True
    with i assms show ?thesis by (simp add: process_document_def process_try_def)
  next
    case False
    show ?thesis
    proof (cases "pdfplumber_open env b")
      case (Inl e)
      with i False assms show ?thesis by (simp add: process_document_def process_try_def)
    next
      case o: (Inr pages)
      show ?thesis
      proof (cases "page_texts pages")
        case (Inl e)
        with i False o assms show ?thesis by (simp add: process_document_def process_try_def)
      next
        case t: (Inr ts)
        obtain res st2 where
          c: "classify_and_analyse env (py_join ''\<newline>'' ts) (st\<lparr>processing := True\<rparr>) = (res, st2)"
          by (cases "classify_and_analyse env (py_join ''\<newline>'' ts) (st\<lparr>processing := True\<rparr>)")
        with i False o t assms have "res = Inr (Some r)"
          by (cases res) (simp_all add: process_document_def process_try_def)
        with c o t show ?thesis by simp
      qed
    qed
  qed
qed

lemma process_document_unreadable:
  assumes "is_scanned_try env b = Inl e"
  shows "process_document env b st =
           (None, st\<lparr>processing := False,
                     errors := errors st @ [''Error checking PDF: '' @ e, scanned_message]\<rparr>)"
proof -
  have s: "is_scanned_pdf env b (st\<lparr>processing := True\<rparr>) =
             (Inr True, st_error (''Error checking PDF: '' @ e) (st\<lparr>processing := True\<rparr>))"
    using assms by (rule is_scanned_pdf_failure)
  then have "fst (is_scanned_pdf env b (st\<lparr>processing := True\<rparr>)) = Inr True" by simp
  from process_document_scanned [OF this] show ?thesis
    by (simp add: s st_error_def)
qed

lemma process_document_late_raise:
  assumes "pdfplumber_open env b = Inr (map Inr texts @ Inl e # rest)"
    and "is_scanned_try env b = Inr False"
  shows "process_document env b st =
           (None, st\<lparr>processing := False,
                     errors := errors st @ [''Error processing document: '' @ e]\<rparr>)"
  using assms
  by (simp add: process_document_def process_try_def is_scanned_pdf_def page_texts_raise
      st_error_def)

section \<open>The scenarios, evaluated\<close>

lemma text_blah: \<open>response_text_of (env_double (Inr []) [reply ''blah {"a":1} blah'']) (calls st0)
         (message_content ''sys'' ''usr'') = Inr ''blah {"a":1} blah''\<close>
  by code_simp

lemma loads_a1: \<open>loads_double ''{"a":1}'' = Inr (JObject [(''a'', JInt 1)])\<close>
  by code_simp

lemma open_A: "pdfplumber_open scenario_A pdf_bytes = Inr [Inr (Some ''twenty characters ok'')]"
  by (simp add: scenario_A_def env_double_def)

lemma open_B: "pdfplumber_open scenario_B pdf_bytes = Inr (map Inr texts_B)"
  by (simp add: scenario_B_def env_double_def)

lemma open_C: "pdfplumber_open scenario_C pdf_bytes = Inr (map Inr texts_B)"
  by (simp add: scenario_C_def env_double_def)

lemma open_corrupt:
  "pdfplumber_open scenario_corrupt pdf_bytes = Inl ''No /Root object! - Is this really a PDF?''"
  by (simp add: scenario_corrupt_def env_double_def)

lemma scanned_A: "fst (is_scanned_pdf scenario_A pdf_bytes (st0\<lparr>processing := True\<rparr>)) = Inr True"
  by code_simp

lemma not_scanned_B: "fst (is_scanned_pdf scenario_B pdf_bytes (st0\<lparr>processing := True\<rparr>)) = Inr False"
  by code_simp

lemma not_scanned_C: "fst (is_scanned_pdf scenario_C pdf_bytes (st0\<lparr>processing := True\<rparr>)) = Inr False"
  by code_simp

lemma run_B: \<open>fst (process_document scenario_B pdf_bytes st0) =
  Some (JObject [(''result'', JObject
     [(''document_type'', JString ''Passport''),
      (''analysis'', JObject [(''summary'', JString ''...''),
                             (''extracted_fields'', JObject [(''name'', JString ''Jane Doe'')])]),
      (''mongo_obj_id'', JString ''doc_20250115093000'')])])\<close>
  by code_simp

lemma fail_C: "bedrock_try scenario_C (calls st0)
    (classification_content scenario_C (py_join ''\<newline>'' (map or_empty texts_B)))
    = Inl ''Expecting value: line 1 column 1 (char 0)''"
  by code_simp

lemma strip_A: "length (py_strip (concat (map or_empty [Some ''twenty characters ok'']))) = 20"
  by code_simp

lemma strip_B: "length (py_strip (concat (map or_empty (take 3 texts_B)))) = 103"
  by code_simp

lemma class9: \<open>fst (get_document_class scenario_class9 ''some text'' st0) =
    Inr (JObject [(''class'', JInt 9), (''category'', JString ''Other'')])\<close>
  by code_simp

lemma text_no_braces: "response_text_of (env_double (Inr []) [reply ''no braces here'']) (calls st0)
         (message_content ''sys'' ''usr'') = Inr ''no braces here''"
  by code_simp

lemma extract_no_braces: "extract_json ''no braces here'' = []"
  by code_simp

lemma open_sampled_failure:
  "pdfplumber_open scenario_sampled_failure pdf_bytes =
     Inr (map Inr [Some long_page] @ Inl ''bad page'' # [Inr (Some ''p3'')])"
  by (simp add: scenario_sampled_failure_def env_double_def)

lemma open_late_failure:
  "pdfplumber_open scenario_late_failure pdf_bytes =
     Inr (map Inr [Some long_page, None, Some ''p3''] @ Inl ''bad page'' # [])"
  by (simp add: scenario_late_failure_def env_double_def)

lemma strip_late: "length (py_strip (concat (map or_empty (take 3 [Some long_page, None, Some ''p3''])))) = 103"
  by code_simp

section \<open>The claims\<close>

text \<open>
  Claim C1, amended. Let the service answer with a body whose first content item has the
  text \<open>t\<close>. Then \<^verbatim>\<open>bedrock_calling\<close> gives \<^verbatim>\<open>json.loads\<close> exactly the slice of \<open>t\<close> from its
  first opening brace to its last closing brace. When the slice parses, the call returns
  the parsed value and shows nothing; when it does not parse, the call raises nothing: it
  shows \<^verbatim>\<open>Error calling Bedrock API: ...\<close> with the message of the exception and returns the
  mapping \<^verbatim>\<open>{"error": str(e)}\<close> as an ordinary value. In both cases one call to the service
  has been made. The slice is the text between and with the two braces when the first
  opening brace precedes the last closing one, and is empty or a lone closing brace when
  no opening brace is followed by a closing one.
\<close>

theorem C1_extraction:
  assumes "response_text_of env (calls st) (message_content sp pt) = Inr t"
  shows "bedrock_calling env sp pt txt st =
           (case json_loads env (extract_json t) of
              Inr v \<Rightarrow> (Inr v, st\<lparr>calls := calls st @ [message_content sp pt]\<rparr>)
            | Inl e \<Rightarrow>
                (Inr (error_dict e),
                 st\<lparr>calls := calls st @ [message_content sp pt],
                    errors := errors st @ [''Error calling Bedrock API: '' @ e]\<rparr>))
       \<and> (\<forall>pre mid post.
             t = pre @ CHR ''{'' # mid @ CHR ''}'' # post \<and> CHR ''{'' \<notin> set pre \<and> CHR ''}'' \<notin> set post
             \<longrightarrow> extract_json t = CHR ''{'' # mid @ ''}'')
       \<and> ((\<nexists>pre mid post. t = pre @ CHR ''{'' # mid @ CHR ''}'' # post)
             \<longrightarrow> extract_json t = [] \<or> extract_json t = ''}'')"
proof (intro conjI allI impI)
  show "bedrock_calling env sp pt txt st =
           (case json_loads env (extract_json t) of
              Inr v \<Rightarrow> (Inr v, st\<lparr>calls := calls st @ [message_content sp pt]\<rparr>)
            | Inl e \<Rightarrow>
                (Inr (error_dict e),
                 st\<lparr>calls := calls st @ [message_content sp pt],
                    errors := errors st @ [''Error calling Bedrock API: '' @ e]\<rparr>))"
    using assms by (simp add: bedrock_calling_eq bedrock_try_def and_then_def)
next
  fix pre mid post
  assume "t = pre @ CHR ''{'' # mid @ CHR ''}'' # post \<and> CHR ''{'' \<notin> set pre \<and> CHR ''}'' \<notin> set post"
  then show "extract_json t = CHR ''{'' # mid @ ''}''"
    by (simp add: extract_json_pair)
next
  assume "\<nexists>pre mid post. t = pre @ CHR ''{'' # mid @ CHR ''}'' # post"
  then show "extract_json t = [] \<or> extract_json t = ''}''"
    by (rule extract_json_no_pair)
qed

text \<open>
  Claim C1, witness: the text \<^verbatim>\<open>blah {"a":1} blah\<close> gives the object \<^verbatim>\<open>{"a":1}\<close> and no
  message; a text without braces gives the error mapping and its message.
\<close>

theorem C1_extraction_witness:
  \<open>response_text_of (env_double (Inr []) [reply ''blah {"a":1} blah'']) (calls st0)
         (message_content ''sys'' ''usr'') = Inr ''blah {"a":1} blah''
   \<and> extract_json ''blah {"a":1} blah'' = ''{"a":1}''
   \<and> bedrock_calling (env_double (Inr []) [reply ''blah {"a":1} blah'']) ''sys'' ''usr'' ''t'' st0
       = (Inr (JObject [(''a'', JInt 1)]),
          \<lparr>processing = False, errors = [], calls = [''sys \<newline>\<newline> usr'']\<rparr>)
   \<and> response_text_of (env_double (Inr []) [reply ''no braces here'']) (calls st0)
         (message_content ''sys'' ''usr'') = Inr ''no braces here''
   \<and> extract_json ''no braces here'' = []
   \<and> bedrock_calling (env_double (Inr []) [reply ''no braces here'']) ''sys'' ''usr'' ''t'' st0
       = (Inr (JObject [(''error'', JString ''Expecting value: line 1 column 1 (char 0)'')]),
          \<lparr>processing = False,
           errors = [''Error calling Bedrock API: Expecting value: line 1 column 1 (char 0)''],
           calls = [''sys \<newline>\<newline> usr'']\<rparr>)\<close>
proof -
  let ?env = \<open>env_double (Inr []) [reply ''blah {"a":1} blah'']\<close>
  let ?env' = \<open>env_double (Inr []) [reply ''no braces here'']\<close>
  note c = C1_extraction [OF text_blah, of "''t''"]
  note d = C1_extraction [OF text_no_braces, of "''t''"]
  have e: \<open>extract_json ''blah {"a":1} blah'' = ''{"a":1}''\<close>
    using c [THEN conjunct2, THEN conjunct1, rule_format, of "''blah ''" \<open>[CHR 0x22, CHR ''a'', CHR 0x22, CHR '':'', CHR ''1'']\<close> "'' blah''"]
    by simp
  have l: \<open>json_loads ?env ''{"a":1}'' = Inr (JObject [(''a'', JInt 1)])\<close>
    by (simp add: env_double_def loads_a1)
  have l': \<open>json_loads ?env' [] = Inl ''Expecting value: line 1 column 1 (char 0)''\<close>
    by (simp add: env_double_def loads_double_def)
  have m: "message_content ''sys'' ''usr'' = ''sys \<newline>\<newline> usr''"
    by (simp add: message_content_def)
  have r1: \<open>bedrock_calling ?env ''sys'' ''usr'' ''t'' st0
       = (Inr (JObject [(''a'', JInt 1)]),
          \<lparr>processing = False, errors = [], calls = [''sys \<newline>\<newline> usr'']\<rparr>)\<close>
    using c [THEN conjunct1] by (simp add: e l m st0_def)
  have r2: \<open>bedrock_calling ?env' ''sys'' ''usr'' ''t'' st0
       = (Inr (JObject [(''error'', JString ''Expecting value: line 1 column 1 (char 0)'')]),
          \<lparr>processing = False,
           errors = [''Error calling Bedrock API: Expecting value: line 1 column 1 (char 0)''],
           calls = [''sys \<newline>\<newline> usr'']\<rparr>)\<close>
    using d [THEN conjunct1] by (simp add: extract_no_braces l' m st0_def error_dict_def)
  show ?thesis
    using text_blah text_no_braces e extract_no_braces r1 r2 by simp
qed

text \<open>
  Claim C1 as stated fails: on a text without braces the call does not fail, it shows
  the error and returns a mapping with the key \<^verbatim>\<open>error\<close>.
\<close>

theorem C1_counterexample:
  \<open>\<not> isl (fst (bedrock_calling (env_double (Inr []) [reply ''no braces here'']) ''sys'' ''usr'' ''t'' st0))
   \<and> bedrock_calling (env_double (Inr []) [reply ''no braces here'']) ''sys'' ''usr'' ''t'' st0
       = (Inr (JObject [(''error'', JString ''Expecting value: line 1 column 1 (char 0)'')]),
          \<lparr>processing = False,
           errors = [''Error calling Bedrock API: Expecting value: line 1 column 1 (char 0)''],
           calls = [''sys \<newline>\<newline> usr'']\<rparr>)\<close>
  by code_simp

text \<open>
  Claim C2, amended. Let the document not be scanned, every page give its text without
  raising, and the body of the \<^verbatim>\<open>try\<close> of the classification call fail with \<open>e\<close>. Then the
  run makes the classification call and no other call to the service, shows the two
  errors, and returns a record all the same: its \<^verbatim>\<open>document_type\<close> is \<^verbatim>\<open>None\<close> and its
  \<^verbatim>\<open>analysis\<close> is the mapping \<^verbatim>\<open>{"error": "Invalid document class: None"}\<close>.
\<close>

theorem C2_classification_failure:
  assumes "pdfplumber_open env b = Inr (map Inr texts)"
    and "fst (is_scanned_pdf env b (st\<lparr>processing := True\<rparr>)) = Inr False"
    and "bedrock_try env (calls st)
           (classification_content env (py_join ''\<newline>'' (map or_empty texts))) = Inl e"
  shows "process_document env b st =
           (Some (JObject [(''result'',
              final_response env JNull (error_dict ''Invalid document class: None''))]),
            st\<lparr>processing := False,
               calls := calls st @ [classification_content env (py_join ''\<newline>'' (map or_empty texts))],
               errors := errors st @
                 [''Error calling Bedrock API: '' @ e, ''Invalid document class: None'']\<rparr>)"
proof -
  let ?text = "py_join ''\<newline>'' (map or_empty texts)"
  let ?st = "st\<lparr>processing := True\<rparr>"
  have t: "process_try env b st = classify_and_analyse env ?text ?st"
    using assms(1) not_scanned_try [OF assms(2)] by (rule process_try_text)
  have c: "fst (get_document_class env ?text ?st) = Inr (JObject [(''error'', JString e)])"
    using assms(3) by (simp add: get_document_class_fst error_dict_def)
  have k: "int_key (dict_get [(''error'', JString e)] ''class'') = Inr None"
    by (simp add: dict_get_def)
  have n: "dict_lookup (prompt_mapping (prompts_module env)) None = None"
    by (simp add: dict_lookup_def)
  note r = classify_and_analyse_invalid [OF c k n]
  show ?thesis
    using assms(3)
    by (simp add: process_document_def t r dict_get_def get_document_class_snd st_error_def)
qed

text \<open>
  Claim C2, witness: scenario C, where the classification answer holds no JSON.
\<close>

theorem C2_classification_failure_witness:
  "bedrock_try scenario_C (calls st0)
      (classification_content scenario_C (py_join ''\<newline>'' (map or_empty texts_B)))
     = Inl ''Expecting value: line 1 column 1 (char 0)''
   \<and> process_document scenario_C pdf_bytes st0 =
       (Some (JObject [(''result'', JObject
          [(''document_type'', JNull),
           (''analysis'', JObject [(''error'', JString ''Invalid document class: None'')]),
           (''mongo_obj_id'', JString ''doc_20250115093000'')])]),
        \<lparr>processing = False,
         errors = [''Error calling Bedrock API: Expecting value: line 1 column 1 (char 0)'',
                   ''Invalid document class: None''],
         calls = [classification_content scenario_C (py_join ''\<newline>'' (map or_empty texts_B))]\<rparr>)"
proof -
  have n: "now_stamp scenario_C = ''20250115093000''"
    by (simp add: scenario_C_def env_double_def)
  show ?thesis
    using C2_classification_failure [OF open_C not_scanned_C fail_C] fail_C
    by (simp add: n final_response_def insert_document_def error_dict_def st0_def)
qed

text \<open>
  Claim C2 as stated fails: in scenario C the caller receives a record, not an error.
\<close>

theorem C2_counterexample:
  "fst (process_document scenario_C pdf_bytes st0) \<noteq> None
   \<and> fst (process_document scenario_C pdf_bytes st0) =
       Some (JObject [(''result'', JObject
          [(''document_type'', JNull),
           (''analysis'', JObject [(''error'', JString ''Invalid document class: None'')]),
           (''mongo_obj_id'', JString ''doc_20250115093000'')])])"
  by code_simp

text \<open>
  Claim C3, amended. \<^verbatim>\<open>get_document_class\<close> is the call of \<^verbatim>\<open>bedrock_calling\<close> with the
  classification prompts and checks nothing. When it returns an object whose \<^verbatim>\<open>class\<close> is
  absent or an integer outside 0 to 5, no category is put in its place: the only call to
  the service is the classification call, and the analysis of the record returned is the
  mapping \<^verbatim>\<open>{"error": "Invalid document class: ..."}\<close> with the value of the field, or \<^verbatim>\<open>None\<close>.
\<close>

theorem C3_no_validation:
  assumes "fst (get_document_class env text st) = Inr (JObject kvs)"
    and "map_of kvs ''class'' = None
       \<or> (\<exists>i. map_of kvs ''class'' = Some (JInt i) \<and> (i < 0 \<or> 5 < i))"
  shows "get_document_class env text st =
           bedrock_calling env (system_prompt_for_doc_classification (prompts_module env))
             (user_prompt_classification (prompts_module env) text) text st
       \<and> fst (classify_and_analyse env text st) =
           Inr (Some (JObject [(''result'',
              final_response env (dict_get kvs ''category'')
                (error_dict (''Invalid document class: '' @ py_str env (dict_get kvs ''class''))))]))
       \<and> calls (snd (classify_and_analyse env text st)) = calls st @ [classification_content env text]"
proof -
  from assms(2) obtain k where k: "int_key (dict_get kvs ''class'') = Inr k"
    and n: "dict_lookup (prompt_mapping (prompts_module env)) k = None"
    by (auto simp add: dict_get_def prompt_mapping_none)
  note r = classify_and_analyse_invalid [OF assms(1) k n]
  show ?thesis
    by (simp add: r get_document_class_eq [symmetric] get_document_class_snd st_error_def)
qed

text \<open>
  Claim C3, witness: a classification answer with the class 9.
\<close>

theorem C3_no_validation_witness:
  "fst (get_document_class scenario_class9 ''some text'' st0) =
     Inr (JObject [(''class'', JInt 9), (''category'', JString ''Other'')])
   \<and> fst (classify_and_analyse scenario_class9 ''some text'' st0) =
       Inr (Some (JObject [(''result'', JObject
         [(''document_type'', JString ''Other''),
          (''analysis'', JObject [(''error'', JString ''Invalid document class: 9'')]),
          (''mongo_obj_id'', JString ''doc_20250115093000'')])]))
   \<and> calls (snd (classify_and_analyse scenario_class9 ''some text'' st0)) =
       [''You classify documents. \<newline>\<newline> Classify: some text'']"
proof -
  have s: "show_int 9 = ''9''" by code_simp
  have h: "map_of [(''class'', JInt 9), (''category'', JString ''Other'')] ''class'' = None
       \<or> (\<exists>i. map_of [(''class'', JInt 9), (''category'', JString ''Other'')] ''class'' = Some (JInt i)
              \<and> (i < 0 \<or> 5 < i))"
    by simp
  have n: "now_stamp scenario_class9 = ''20250115093000''"
    by (simp add: scenario_class9_def env_double_def)
  have c: "classification_content scenario_class9 ''some text'' =
      ''You classify documents. \<newline>\<newline> Classify: some text''"
    by (simp add: classification_content_def scenario_class9_def env_double_def prompts_double_def
        message_content_def)
  show ?thesis
    using C3_no_validation [OF class9 h] class9
    by (simp add: s n c dict_get_def final_response_def insert_document_def error_dict_def st0_def)
qed

text \<open>
  Claim C3 as stated fails: with the class 9, \<^verbatim>\<open>get_document_class\<close> returns the object.
\<close>

theorem C3_counterexample:
  \<open>\<not> isl (fst (get_document_class scenario_class9 ''some text'' st0))
   \<and> fst (get_document_class scenario_class9 ''some text'' st0) =
       Inr (JObject [(''class'', JInt 9), (''category'', JString ''Other'')])\<close>
  by code_simp

text \<open>
  Claim C4. Let the document open, and let its first three pages (all of them, if fewer)
  give the texts \<open>texts\<close> without raising, \<^verbatim>\<open>None\<close> for a page without text. Then
  \<^verbatim>\<open>is_scanned_pdf\<close> returns \<^verbatim>\<open>True\<close> exactly when the stripped concatenation of these texts
  has at most 100 characters; in particular it returns \<^verbatim>\<open>True\<close> for a document without
  pages.
\<close>

theorem C4_scanned_threshold:
  assumes "pdfplumber_open env b = Inr pages" and "take 3 pages = map Inr texts"
  shows "fst (is_scanned_pdf env b st) =
           Inr (length (py_strip (concat (map or_empty texts))) \<le> 100)
       \<and> (pages = [] \<longrightarrow> fst (is_scanned_pdf env b st) = Inr True)"
  using assms is_scanned_try_texts [OF assms]
  by (auto simp add: is_scanned_pdf_fst py_strip_def)

text \<open>
  Claim C4, witness: scenario A with 20 characters is scanned, scenario B with 103
  characters on its first three pages is not.
\<close>

theorem C4_scanned_threshold_witness:
  "pdfplumber_open scenario_A pdf_bytes = Inr [Inr (Some ''twenty characters ok'')]
   \<and> length (py_strip (concat (map or_empty [Some ''twenty characters ok'']))) = 20
   \<and> fst (is_scanned_pdf scenario_A pdf_bytes st0) = Inr True
   \<and> pdfplumber_open scenario_B pdf_bytes = Inr (map Inr texts_B)
   \<and> length (py_strip (concat (map or_empty (take 3 texts_B)))) = 103
   \<and> fst (is_scanned_pdf scenario_B pdf_bytes st0) = Inr False"
proof -
  have a: "take 3 [Inr (Some ''twenty characters ok'')] = map Inr [Some ''twenty characters ok'']"
    by simp
  have b: "take 3 (map Inr texts_B) = map Inr (take 3 texts_B)"
    by (simp add: take_map)
  note wa = C4_scanned_threshold [OF open_A a, of st0, unfolded strip_A]
  note wb = C4_scanned_threshold [OF open_B b, of st0, unfolded strip_B]
  show ?thesis
    using wa wb open_A open_B strip_A strip_B by simp
qed

text \<open>
  Claim C5. Let the document open with pages that give the texts \<open>texts\<close> without
  raising, and let it not be scanned. Then the text of every page is read, the empty
  string for a page without text, the texts are joined by newlines in the order of the
  pages, and this text is the one classified: the first call of the run to the service
  carries the classification prompt built from it.
\<close>

theorem C5_full_extraction:
  assumes "pdfplumber_open env b = Inr (map Inr texts)"
    and "fst (is_scanned_pdf env b (st\<lparr>processing := True\<rparr>)) = Inr False"
  shows "page_texts (map Inr texts) = Inr (map or_empty texts)
       \<and> process_try env b st =
           classify_and_analyse env (py_join ''\<newline>'' (map or_empty texts)) (st\<lparr>processing := True\<rparr>)
       \<and> calls (snd (process_document env b st)) ! length (calls st) =
           classification_content env (py_join ''\<newline>'' (map or_empty texts))"
proof -
  let ?text = "py_join ''\<newline>'' (map or_empty texts)"
  have t: "process_try env b st = classify_and_analyse env ?text (st\<lparr>processing := True\<rparr>)"
    using assms(1) not_scanned_try [OF assms(2)] by (rule process_try_text)
  obtain rest where "calls (snd (classify_and_analyse env ?text (st\<lparr>processing := True\<rparr>))) =
      calls (st\<lparr>processing := True\<rparr>) @ classification_content env ?text # rest"
    using classify_and_analyse_calls by blast
  then have "calls (snd (process_document env b st)) = calls st @ classification_content env ?text # rest"
    by (simp add: process_document_calls t)
  then show ?thesis
    using t by (simp add: page_texts_texts)
qed

text \<open>
  Claim C5, witness: scenario B; the fourth page is part of the text, the second page
  is an empty line.
\<close>

theorem C5_full_extraction_witness:
  "pdfplumber_open scenario_B pdf_bytes = Inr (map Inr texts_B)
   \<and> fst (is_scanned_pdf scenario_B pdf_bytes (st0\<lparr>processing := True\<rparr>)) = Inr False
   \<and> py_join ''\<newline>'' (map or_empty texts_B) =
       long_page @ ''\<newline>'' @ ''\<newline>'' @ ''p3'' @ ''\<newline>'' @ ''last page''
   \<and> calls (snd (process_document scenario_B pdf_bytes st0)) ! 0 =
       ''You classify documents. \<newline>\<newline> Classify: '' @
       long_page @ ''\<newline>'' @ ''\<newline>'' @ ''p3'' @ ''\<newline>'' @ ''last page''"
proof -
  have j: "py_join ''\<newline>'' (map or_empty texts_B) =
       long_page @ ''\<newline>'' @ ''\<newline>'' @ ''p3'' @ ''\<newline>'' @ ''last page''"
    by (simp add: texts_B_def or_empty_def)
  have c: "classification_content scenario_B (py_join ''\<newline>'' (map or_empty texts_B)) =
       ''You classify documents. \<newline>\<newline> Classify: '' @
       long_page @ ''\<newline>'' @ ''\<newline>'' @ ''p3'' @ ''\<newline>'' @ ''last page''"
    unfolding j
    by (simp add: classification_content_def scenario_B_def env_double_def prompts_double_def
        message_content_def)
  show ?thesis
    using C5_full_extraction [OF open_B not_scanned_B] open_B not_scanned_B j c
    by (simp add: st0_def)
qed

text \<open>
  Claim C6, amended. \<^verbatim>\<open>is_scanned_pdf\<close> never raises. When the document cannot be opened,
  or when one of the pages it samples, the first three, raises on the read of its text,
  it shows \<^verbatim>\<open>Error checking PDF: ...\<close> and returns \<^verbatim>\<open>True\<close>, and the run ends as for a scanned
  document: \<^verbatim>\<open>process_document\<close> returns \<^verbatim>\<open>None\<close> after the two messages, without a call to
  the service. When the first page that raises comes after the third and the sampled text
  is longer than 100 characters, the document is not taken as scanned: \<^verbatim>\<open>is_scanned_pdf\<close>
  returns \<^verbatim>\<open>False\<close> and shows nothing, and \<^verbatim>\<open>process_document\<close> returns \<^verbatim>\<open>None\<close> after the single
  message \<^verbatim>\<open>Error processing document: ...\<close>, again without a call and without raising.
\<close>

theorem C6_unreadable_is_scanned:
  "(\<exists>r. fst (is_scanned_pdf env b st) = Inr r)
   \<and> (\<forall>e. pdfplumber_open env b = Inl e
        \<longrightarrow> is_scanned_pdf env b st = (Inr True, st_error (''Error checking PDF: '' @ e) st)
          \<and> process_document env b st =
              (None, st\<lparr>processing := False,
                        errors := errors st @ [''Error checking PDF: '' @ e, scanned_message]\<rparr>))
   \<and> (\<forall>texts e rest.
          pdfplumber_open env b = Inr (map Inr texts @ Inl e # rest) \<and> length texts < 3
        \<longrightarrow> is_scanned_pdf env b st = (Inr True, st_error (''Error checking PDF: '' @ e) st)
          \<and> process_document env b st =
              (None, st\<lparr>processing := False,
                        errors := errors st @ [''Error checking PDF: '' @ e, scanned_message]\<rparr>))
   \<and> (\<forall>texts e rest.
          pdfplumber_open env b = Inr (map Inr texts @ Inl e # rest) \<and> 3 \<le> length texts
          \<and> 100 < length (py_strip (concat (map or_empty (take 3 texts))))
        \<longrightarrow> is_scanned_pdf env b st = (Inr False, st)
          \<and> process_document env b st =
              (None, st\<lparr>processing := False,
                        errors := errors st @ [''Error processing document: '' @ e]\<rparr>))"
proof (intro conjI allI impI)
  show "\<exists>r. fst (is_scanned_pdf env b st) = Inr r" by (rule is_scanned_pdf_total)
next
  fix e
  assume "pdfplumber_open env b = Inl e"
  then have f: "is_scanned_try env b = Inl e" by (simp add: is_scanned_try_def and_then_def)
  from f show "is_scanned_pdf env b st = (Inr True, st_error (''Error checking PDF: '' @ e) st)"
    by (rule is_scanned_pdf_failure)
  from f show "process_document env b st =
          (None, st\<lparr>processing := False,
                    errors := errors st @ [''Error checking PDF: '' @ e, scanned_message]\<rparr>)"
    by (rule process_document_unreadable)
next
  fix texts e rest
  assume a: "pdfplumber_open env b = Inr (map Inr texts @ Inl e # rest) \<and> length texts < 3"
  then have f: "is_scanned_try env b = Inl e" by (simp add: is_scanned_try_sampled_raise)
  from f show "is_scanned_pdf env b st = (Inr True, st_error (''Error checking PDF: '' @ e) st)"
    by (rule is_scanned_pdf_failure)
  from f show "process_document env b st =
          (None, st\<lparr>processing := False,
                    errors := errors st @ [''Error checking PDF: '' @ e, scanned_message]\<rparr>)"
    by (rule process_document_unreadable)
next
  fix texts e rest
  assume a: "pdfplumber_open env b = Inr (map Inr texts @ Inl e # rest) \<and> 3 \<le> length texts
          \<and> 100 < length (py_strip (concat (map or_empty (take 3 texts))))"
  then have o: "pdfplumber_open env b = Inr (map Inr texts @ Inl e # rest)" by simp
  have f: "is_scanned_try env b = Inr False"
    using a by (simp add: is_scanned_try_late_raise)
  then show "is_scanned_pdf env b st = (Inr False, st)"
    by (simp add: is_scanned_pdf_def)
  from o f show "process_document env b st =
          (None, st\<lparr>processing := False,
                    errors := errors st @ [''Error processing document: '' @ e]\<rparr>)"
    by (rule process_document_late_raise)
qed

text \<open>
  Claim C6, witness: bytes that cannot be opened, a document whose second page raises,
  and a document whose fourth page raises.
\<close>

theorem C6_unreadable_is_scanned_witness:
  "pdfplumber_open scenario_corrupt pdf_bytes = Inl ''No /Root object! - Is this really a PDF?''
   \<and> process_document scenario_corrupt pdf_bytes st0 =
       (None, \<lparr>processing = False,
               errors = [''Error checking PDF: No /Root object! - Is this really a PDF?'',
                         scanned_message],
               calls = []\<rparr>)
   \<and> pdfplumber_open scenario_sampled_failure pdf_bytes =
       Inr [Inr (Some long_page), Inl ''bad page'', Inr (Some ''p3'')]
   \<and> is_scanned_pdf scenario_sampled_failure pdf_bytes st0 =
       (Inr True, \<lparr>processing = False, errors = [''Error checking PDF: bad page''], calls = []\<rparr>)
   \<and> process_document scenario_sampled_failure pdf_bytes st0 =
       (None, \<lparr>processing = False,
               errors = [''Error checking PDF: bad page'', scanned_message],
               calls = []\<rparr>)
   \<and> pdfplumber_open scenario_late_failure pdf_bytes =
       Inr [Inr (Some long_page), Inr None, Inr (Some ''p3''), Inl ''bad page'']
   \<and> is_scanned_pdf scenario_late_failure pdf_bytes st0 = (Inr False, st0)
   \<and> process_document scenario_late_failure pdf_bytes st0 =
       (None, \<lparr>processing = False,
               errors = [''Error processing document: bad page''],
               calls = []\<rparr>)"
proof -
  note c = C6_unreadable_is_scanned [of _ pdf_bytes st0]
  have h2: "pdfplumber_open scenario_sampled_failure pdf_bytes =
              Inr (map Inr [Some long_page] @ Inl ''bad page'' # [Inr (Some ''p3'')])
            \<and> length [Some long_page] < 3"
    using open_sampled_failure by simp
  have h3: "pdfplumber_open scenario_late_failure pdf_bytes =
              Inr (map Inr [Some long_page, None, Some ''p3''] @ Inl ''bad page'' # [])
            \<and> 3 \<le> length [Some long_page, None, Some ''p3'']
            \<and> 100 < length (py_strip (concat (map or_empty (take 3 [Some long_page, None, Some ''p3'']))))"
    using open_late_failure by (simp only: strip_late) simp
  note w1 = c [of scenario_corrupt, THEN conjunct2, THEN conjunct1, rule_format, OF open_corrupt]
  note w2 = c [of scenario_sampled_failure, THEN conjunct2, THEN conjunct2, THEN conjunct1,
      rule_format, OF h2]
  note w3 = c [of scenario_late_failure, THEN conjunct2, THEN conjunct2, THEN conjunct2,
      rule_format, OF h3]
  show ?thesis
    using w1 w2 w3 open_corrupt open_sampled_failure open_late_failure
    by (simp add: st0_def st_error_def)
qed

text \<open>
  Claim C6 as stated fails: a document whose fourth page cannot be read is not treated
  as scanned; the run ends with a processing error and the rejection of scanned documents
  is not shown.
\<close>

theorem C6_counterexample:
  "fst (is_scanned_pdf scenario_late_failure pdf_bytes st0) = Inr False
   \<and> process_document scenario_late_failure pdf_bytes st0 =
       (None, \<lparr>processing = False,
               errors = [''Error processing document: bad page''],
               calls = []\<rparr>)
   \<and> scanned_message \<notin> set (errors (snd (process_document scenario_late_failure pdf_bytes st0)))"
  by code_simp

text \<open>
  Claim C7. When \<^verbatim>\<open>is_scanned_pdf\<close> returns \<^verbatim>\<open>True\<close>, \<^verbatim>\<open>process_document\<close> returns \<^verbatim>\<open>None\<close>, the
  last message shown is the rejection of scanned documents, the flag \<^verbatim>\<open>processing\<close> is
  cleared, and no call to the service has been made.
\<close>

theorem C7_scanned_no_inference:
  assumes "fst (is_scanned_pdf env b (st\<lparr>processing := True\<rparr>)) = Inr True"
  shows "fst (process_document env b st) = None
       \<and> calls (snd (process_document env b st)) = calls st
       \<and> last (errors (snd (process_document env b st))) = scanned_message
       \<and> \<not> processing (snd (process_document env b st))"
  by (simp add: process_document_scanned [OF assms] is_scanned_pdf_snd st_error_def split: sum.split)

text \<open>
  Claim C7, witness: scenario A.
\<close>

theorem C7_scanned_no_inference_witness:
  "fst (is_scanned_pdf scenario_A pdf_bytes (st0\<lparr>processing := True\<rparr>)) = Inr True
   \<and> fst (process_document scenario_A pdf_bytes st0) = None
   \<and> calls (snd (process_document scenario_A pdf_bytes st0)) = []
   \<and> last (errors (snd (process_document scenario_A pdf_bytes st0))) = scanned_message
   \<and> \<not> processing (snd (process_document scenario_A pdf_bytes st0))"
  using C7_scanned_no_inference [OF scanned_A] scanned_A
  by (simp add: st0_def)

text \<open>
  Claim C8, amended. For a class that is no key of the prompt table,
  \<^verbatim>\<open>get_document_analysis\<close> shows \<^verbatim>\<open>Invalid document class: ...\<close> and returns the mapping
  \<^verbatim>\<open>{"error": "Invalid document class: ..."}\<close> as an ordinary value; it builds no prompt and
  makes no call to the service. A list or a dict cannot be looked up in the table: for
  these it raises \<^verbatim>\<open>TypeError\<close>, again without a call.
\<close>

theorem C8_unknown_class:
  "(\<forall>k. int_key doc_class = Inr k \<and> (\<forall>i\<in>{0..5}. k \<noteq> Some i)
        \<longrightarrow> get_document_analysis env doc_class text st =
              (Inr (error_dict (''Invalid document class: '' @ py_str env doc_class)),
               st_error (''Invalid document class: '' @ py_str env doc_class) st)
          \<and> calls (snd (get_document_analysis env doc_class text st)) = calls st)
   \<and> (\<forall>e. int_key doc_class = Inl e
        \<longrightarrow> get_document_analysis env doc_class text st = (Inl e, st))"
proof (intro conjI allI impI)
  fix k
  assume a: "int_key doc_class = Inr k \<and> (\<forall>i\<in>{0..5}. k \<noteq> Some i)"
  then have "dict_lookup (prompt_mapping (prompts_module env)) k = None"
    by (cases k) (auto simp add: prompt_mapping_none)
  with a have g: "get_document_analysis env doc_class text st =
              (Inr (error_dict (''Invalid document class: '' @ py_str env doc_class)),
               st_error (''Invalid document class: '' @ py_str env doc_class) st)"
    by (simp add: get_document_analysis_invalid)
  then show "get_document_analysis env doc_class text st =
              (Inr (error_dict (''Invalid document class: '' @ py_str env doc_class)),
               st_error (''Invalid document class: '' @ py_str env doc_class) st)" .
  from g show "calls (snd (get_document_analysis env doc_class text st)) = calls st"
    by (simp add: st_error_def)
next
  fix e
  assume "int_key doc_class = Inl e"
  then show "get_document_analysis env doc_class text st = (Inl e, st)"
    by (rule get_document_analysis_unhashable)
qed

text \<open>
  Claim C8, witness: the class 9.
\<close>

theorem C8_unknown_class_witness:
  "int_key (JInt 9) = Inr (Some 9)
   \<and> get_document_analysis scenario_A (JInt 9) ''some text'' st0 =
       (Inr (JObject [(''error'', JString ''Invalid document class: 9'')]),
        \<lparr>processing = False, errors = [''Invalid document class: 9''], calls = []\<rparr>)"
proof -
  have s: "show_int 9 = ''9''" by code_simp
  have h: "int_key (JInt 9) = Inr (Some 9) \<and> (\<forall>i\<in>{0..5}. Some (9::int) \<noteq> Some i)"
    by simp
  show ?thesis
    using C8_unknown_class [of "JInt 9" scenario_A "''some text''" st0, THEN conjunct1, rule_format, OF h]
    by (simp add: s error_dict_def st_error_def st0_def)
qed

text \<open>
  Claim C8 as stated fails: for the class 9 the function does not fail, it returns a
  mapping.
\<close>

theorem C8_counterexample:
  "\<not> isl (fst (get_document_analysis scenario_A (JInt 9) ''some text'' st0))
   \<and> fst (get_document_analysis scenario_A (JInt 9) ''some text'' st0) =
       Inr (JObject [(''error'', JString ''Invalid document class: 9'')])"
  by code_simp

text \<open>
  Claim C9. Whenever \<^verbatim>\<open>process_document\<close> returns a record, the document opened, its
  pages gave their texts, the classification of the joined text returned an object, and
  the record holds under \<^verbatim>\<open>document_type\<close> the \<^verbatim>\<open>category\<close> of that object, under \<^verbatim>\<open>analysis\<close>
  the whole value returned by \<^verbatim>\<open>get_document_analysis\<close> for the \<^verbatim>\<open>class\<close> of that object,
  and under \<^verbatim>\<open>mongo_obj_id\<close> the identifier given by \<^verbatim>\<open>insert_document\<close>, which is not empty.
\<close>

theorem C9_final_record:
  assumes "fst (process_document env b st) = Some r"
  shows "\<exists>pages ts kvs analysis.
           pdfplumber_open env b = Inr pages \<and> page_texts pages = Inr ts
         \<and> fst (get_document_class env (py_join ''\<newline>'' ts) (st\<lparr>processing := True\<rparr>))
             = Inr (JObject kvs)
         \<and> fst (get_document_analysis env (dict_get kvs ''class'') (py_join ''\<newline>'' ts)
                  (snd (get_document_class env (py_join ''\<newline>'' ts) (st\<lparr>processing := True\<rparr>))))
             = Inr analysis
         \<and> r = JObject [(''result'',
                  JObject [(''document_type'', dict_get kvs ''category''),
                           (''analysis'', analysis),
                           (''mongo_obj_id'', JString (insert_document env
                              (JObject [(''document_type'', dict_get kvs ''category''),
                                        (''analysis'', analysis)])))])]
         \<and> insert_document env (JObject [(''document_type'', dict_get kvs ''category''),
                                        (''analysis'', analysis)]) \<noteq> []"
proof -
  from process_document_some [OF assms] obtain pages ts
    where p: "pdfplumber_open env b = Inr pages" "page_texts pages = Inr ts"
      and "fst (classify_and_analyse env (py_join ''\<newline>'' ts) (st\<lparr>processing := True\<rparr>))
             = Inr (Some r)"
    by blast
  from classify_and_analyse_some [OF this(3)] obtain kvs analysis where
    "fst (get_document_class env (py_join ''\<newline>'' ts) (st\<lparr>processing := True\<rparr>))
       = Inr (JObject kvs)"
    "fst (get_document_analysis env (dict_get kvs ''class'') (py_join ''\<newline>'' ts)
            (snd (get_document_class env (py_join ''\<newline>'' ts) (st\<lparr>processing := True\<rparr>))))
       = Inr analysis"
    "r = JObject [(''result'',
                  JObject [(''document_type'', dict_get kvs ''category''),
                           (''analysis'', analysis),
                           (''mongo_obj_id'', JString (''doc_'' @ now_stamp env))])]"
    by blast
  with p show ?thesis
    by (auto simp add: insert_document_def)
qed

text \<open>
  Claim C9, witness: scenario B gives the document type \<^verbatim>\<open>Passport\<close>, the extracted name
  \<^verbatim>\<open>Jane Doe\<close> and an identifier.
\<close>

theorem C9_final_record_witness:
  \<open>fst (process_document scenario_B pdf_bytes st0) =
     Some (JObject [(''result'', JObject
       [(''document_type'', JString ''Passport''),
        (''analysis'', JObject [(''summary'', JString ''...''),
                               (''extracted_fields'', JObject [(''name'', JString ''Jane Doe'')])]),
        (''mongo_obj_id'', JString ''doc_20250115093000'')])])
   \<and> (\<exists>pages ts kvs analysis.
         pdfplumber_open scenario_B pdf_bytes = Inr pages \<and> page_texts pages = Inr ts
       \<and> fst (get_document_class scenario_B (py_join ''\<newline>'' ts) (st0\<lparr>processing := True\<rparr>))
           = Inr (JObject kvs)
       \<and> dict_get kvs ''category'' = JString ''Passport''
       \<and> py_get analysis ''extracted_fields'' = Inr (JObject [(''name'', JString ''Jane Doe'')])
       \<and> insert_document scenario_B (JObject [(''document_type'', dict_get kvs ''category''),
                                        (''analysis'', analysis)]) \<noteq> [])\<close>
proof -
  from C9_final_record [OF run_B] obtain pages ts kvs analysis where
    a: "pdfplumber_open scenario_B pdf_bytes = Inr pages" "page_texts pages = Inr ts"
       "fst (get_document_class scenario_B (py_join ''\<newline>'' ts) (st0\<lparr>processing := True\<rparr>))
           = Inr (JObject kvs)"
    and r: "JObject [(''result'', JObject
       [(''document_type'', JString ''Passport''),
        (''analysis'', JObject [(''summary'', JString ''...''),
                               (''extracted_fields'', JObject [(''name'', JString ''Jane Doe'')])]),
        (''mongo_obj_id'', JString ''doc_20250115093000'')])]
      = JObject [(''result'',
                  JObject [(''document_type'', dict_get kvs ''category''),
                           (''analysis'', analysis),
                           (''mongo_obj_id'', JString (insert_document scenario_B
                              (JObject [(''document_type'', dict_get kvs ''category''),
                                        (''analysis'', analysis)])))])]"
    and i: "insert_document scenario_B (JObject [(''document_type'', dict_get kvs ''category''),
                                        (''analysis'', analysis)]) \<noteq> []"
    by blast
  from r have d: "dict_get kvs ''category'' = JString ''Passport''"
    and an: "analysis = JObject [(''summary'', JString ''...''),
                               (''extracted_fields'', JObject [(''name'', JString ''Jane Doe'')])]"
    by simp_all
  have "py_get analysis ''extracted_fields'' = Inr (JObject [(''name'', JString ''Jane Doe'')])"
    unfolding an by (simp add: dict_get_def)
  with a d i run_B show ?thesis by blast
qed

text \<open>
  Claim C10. \<^verbatim>\<open>bedrock_calling\<close> always returns: the parsed payload when the body of its
  \<^verbatim>\<open>try\<close> succeeds, and otherwise the mapping \<^verbatim>\<open>{"error": str(e)}\<close>, a dict like a payload,
  whatever failed: the transport, the shape of the body, or the parse of the slice.
\<close>

theorem C10_never_raises:
  "fst (bedrock_calling env sp pt txt st) =
     Inr (case bedrock_try env (calls st) (message_content sp pt) of
            Inl e \<Rightarrow> JObject [(''error'', JString e)]
          | Inr v \<Rightarrow> v)
   \<and> (\<forall>e. invoke_model env (calls st) (message_content sp pt) = Inl e
          \<longrightarrow> fst (bedrock_calling env sp pt txt st) = Inr (JObject [(''error'', JString e)]))
   \<and> (\<forall>t e. response_text_of env (calls st) (message_content sp pt) = Inr t
            \<and> json_loads env (extract_json t) = Inl e
          \<longrightarrow> fst (bedrock_calling env sp pt txt st) = Inr (JObject [(''error'', JString e)]))
   \<and> (\<forall>e. py_get (JObject [(''error'', JString e)]) ''error'' = Inr (JString e))"
  by (simp add: bedrock_calling_fst bedrock_try_def response_text_of_def and_then_def error_dict_def
      dict_get_def split: sum.split)

text \<open>
  Claim C10, witness: a transport failure comes back as a mapping.
\<close>

theorem C10_never_raises_witness:
  "invoke_model (env_double (Inr []) [Inl ''AccessDenied'']) (calls st0) (message_content ''sys'' ''usr'')
     = Inl ''AccessDenied''
   \<and> fst (bedrock_calling (env_double (Inr []) [Inl ''AccessDenied'']) ''sys'' ''usr'' ''t'' st0)
     = Inr (JObject [(''error'', JString ''AccessDenied'')])"
proof -
  have h: "invoke_model (env_double (Inr []) [Inl ''AccessDenied'']) (calls st0) (message_content ''sys'' ''usr'')
     = Inl ''AccessDenied''"
    by (simp add: env_double_def scripted_def st0_def)
  show ?thesis
    using C10_never_raises [of "env_double (Inr []) [Inl ''AccessDenied'']" "''sys''" "''usr''" "''t''" st0,
        THEN conjunct2, THEN conjunct1, rule_format, OF h] h
    by simp
qed

end
